theory Spec2Isabelle
  imports Main
begin

section \<open>Python values, objects and the store\<close>

text \<open>
  The engine of \<^verbatim>\<open>dataflow_tasks.py\<close> (\<^verbatim>\<open>CommandLineTask\<close>) works on JSON-like data: the
  task's \<^verbatim>\<open>command_spec\<close> and the workflow spec \<^verbatim>\<open>fw_spec\<close>. Lists and dictionaries
  are mutable objects that the code shares by reference (\<^verbatim>\<open>inp[key] = item\<close>,
  \<^verbatim>\<open>arglist = command\<close>) and then writes to (\<^verbatim>\<open>arglist.append\<close>,
  \<^verbatim>\<open>arg['target']['value'] = path\<close>). They therefore live in a store and are named by
  their address; None, booleans, integers and strings are immutable and are values.
  A dictionary keeps its insertion order and has string keys, as JSON gives it.
  Floating-point values are not part of the embedding.

  Text is a \<^typ>\<open>string\<close> holding the UTF-8 encoding of the Python \<^verbatim>\<open>str\<close>; bytes are a
  \<^typ>\<open>string\<close> as well.
\<close>

type_synonym addr = nat

datatype pyval = PNone | PBool bool | PInt int | PStr string | PRef addr

datatype pyobj = PDict "(string \<times> pyval) list" | PList "pyval list"

type_synonym store = "pyobj list"

text \<open>Every exception of the source is a value; \<open>RuntimeError\<close> carries its argument
  (\<^verbatim>\<open>res[1]\<close>: the captured bytes, or None when the stream was not a pipe).\<close>

datatype error =
    AssertionError
  | AttributeError
  | IndexError
  | KeyError
  | NotImplementedError
  | RecursionError
  | RuntimeError "string option"
  | TypeError
  | UnicodeDecodeError
  | ValueError
  | OtherError string

definition obj_at :: "store \<Rightarrow> addr \<Rightarrow> pyobj option" where
  "obj_at h a = (if a < length h then Some (h ! a) else None)"

definition alloc :: "pyobj \<Rightarrow> store \<Rightarrow> pyval \<times> store" where
  "alloc ob h = (PRef (length h), h @ [ob])"

text \<open>\<^verbatim>\<open>isinstance(v, basestring)\<close>, \<^verbatim>\<open>isinstance(v, list)\<close>, \<^verbatim>\<open>isinstance(v, dict)\<close>.\<close>

fun is_str :: "pyval \<Rightarrow> bool" where
  "is_str (PStr s) = True"
| "is_str v = False"

fun is_list :: "store \<Rightarrow> pyval \<Rightarrow> bool" where
  "is_list h (PRef a) = (case obj_at h a of Some (PList xs) \<Rightarrow> True | _ \<Rightarrow> False)"
| "is_list h v = False"

fun is_dict :: "store \<Rightarrow> pyval \<Rightarrow> bool" where
  "is_dict h (PRef a) = (case obj_at h a of Some (PDict d) \<Rightarrow> True | _ \<Rightarrow> False)"
| "is_dict h v = False"

text \<open>\<^verbatim>\<open>d[k] = v\<close> on a dictionary: an existing key keeps its place, a new one goes last.\<close>

fun dict_set :: "(string \<times> pyval) list \<Rightarrow> string \<Rightarrow> pyval \<Rightarrow> (string \<times> pyval) list" where
  "dict_set [] k v = [(k, v)]"
| "dict_set ((k', v') # d) k v = (if k' = k then (k, v) # d else (k', v') # dict_set d k v)"

subsection \<open>Text\<close>

text \<open>The characters Python's \<^verbatim>\<open>str.strip()\<close> and \<^verbatim>\<open>str.split()\<close> treat as whitespace:
  U+0009..U+000D, U+001C..U+0020, and (in UTF-8) U+0085, U+00A0, U+1680, U+2000..U+200A,
  U+2028, U+2029, U+202F, U+205F, U+3000.\<close>

definition ascii_ws :: "char \<Rightarrow> bool" where
  "ascii_ws c = (c \<in> set [CHR 0x09, CHR 0x0A, CHR 0x0B, CHR 0x0C, CHR 0x0D,
                          CHR 0x1C, CHR 0x1D, CHR 0x1E, CHR 0x1F, CHR 0x20])"

definition ws2 :: "string list" where
  "ws2 = [[CHR 0xC2, CHR 0x85], [CHR 0xC2, CHR 0xA0]]"

definition ws3 :: "string list" where
  "ws3 = [[CHR 0xE1, CHR 0x9A, CHR 0x80],
          [CHR 0xE2, CHR 0x80, CHR 0x80], [CHR 0xE2, CHR 0x80, CHR 0x81],
          [CHR 0xE2, CHR 0x80, CHR 0x82], [CHR 0xE2, CHR 0x80, CHR 0x83],
          [CHR 0xE2, CHR 0x80, CHR 0x84], [CHR 0xE2, CHR 0x80, CHR 0x85],
          [CHR 0xE2, CHR 0x80, CHR 0x86], [CHR 0xE2, CHR 0x80, CHR 0x87],
          [CHR 0xE2, CHR 0x80, CHR 0x88], [CHR 0xE2, CHR 0x80, CHR 0x89],
          [CHR 0xE2, CHR 0x80, CHR 0x8A], [CHR 0xE2, CHR 0x80, CHR 0xA8],
          [CHR 0xE2, CHR 0x80, CHR 0xA9], [CHR 0xE2, CHR 0x80, CHR 0xAF],
          [CHR 0xE2, CHR 0x81, CHR 0x9F], [CHR 0xE3, CHR 0x80, CHR 0x80]]"

text \<open>The length in bytes of the whitespace character a text starts with (0: none), and
  of the one a reversed text starts with.\<close>

fun ws_len :: "string \<Rightarrow> nat" where
  "ws_len [] = 0"
| "ws_len (c # cs) =
     (if ascii_ws c then 1
      else if take 2 (c # cs) \<in> set ws2 then 2
      else if take 3 (c # cs) \<in> set ws3 then 3
      else 0)"

fun ws_len_rev :: "string \<Rightarrow> nat" where
  "ws_len_rev [] = 0"
| "ws_len_rev (c # cs) =
     (if ascii_ws c then 1
      else if rev (take 2 (c # cs)) \<in> set ws2 then 2
      else if rev (take 3 (c # cs)) \<in> set ws3 then 3
      else 0)"

fun lstrip_by :: "(string \<Rightarrow> nat) \<Rightarrow> string \<Rightarrow> string" where
  "lstrip_by f [] = []"
| "lstrip_by f (c # cs) =
     (if f (c # cs) = 0 then c # cs else lstrip_by f (drop (f (c # cs) - 1) cs))"

definition strip :: "string \<Rightarrow> string" where
  "strip s = rev (lstrip_by ws_len_rev (rev (lstrip_by ws_len s)))"

text \<open>\<^verbatim>\<open>s.split()\<close>: the maximal runs of non-whitespace, in order.\<close>

fun split_from :: "string \<Rightarrow> string \<Rightarrow> string list" where
  "split_from cur [] = (if cur = [] then [] else [cur])"
| "split_from cur (c # cs) =
     (if ws_len (c # cs) = 0 then split_from (cur @ [c]) cs
      else (if cur = [] then [] else [cur]) @ split_from [] (drop (ws_len (c # cs) - 1) cs))"

definition split :: "string \<Rightarrow> string list" where
  "split s = split_from [] s"

text \<open>\<^verbatim>\<open>b.decode()\<close>: the bytes must be well-formed UTF-8 (Unicode, Table 3-7).\<close>

definition cont_byte :: "char \<Rightarrow> bool" where
  "cont_byte c = (0x80 \<le> (of_char c :: nat) \<and> (of_char c :: nat) \<le> 0xBF)"

definition in_range :: "nat \<Rightarrow> nat \<Rightarrow> char \<Rightarrow> bool" where
  "in_range lo hi c = (lo \<le> (of_char c :: nat) \<and> (of_char c :: nat) \<le> hi)"

fun utf8_valid :: "string \<Rightarrow> bool" where
  "utf8_valid [] = True"
| "utf8_valid [a] = in_range 0 0x7F a"
| "utf8_valid [a, b] =
     (if in_range 0 0x7F a then utf8_valid [b] else in_range 0xC2 0xDF a \<and> cont_byte b)"
| "utf8_valid [a, b, c] =
     (if in_range 0 0x7F a then utf8_valid [b, c]
      else if in_range 0xC2 0xDF a then cont_byte b \<and> utf8_valid [c]
      else (in_range 0xE0 0xE0 a \<and> in_range 0xA0 0xBF b
            \<or> in_range 0xE1 0xEC a \<and> cont_byte b
            \<or> in_range 0xED 0xED a \<and> in_range 0x80 0x9F b
            \<or> in_range 0xEE 0xEF a \<and> cont_byte b) \<and> cont_byte c)"
| "utf8_valid (a # b # c # d # r) =
     (if in_range 0 0x7F a then utf8_valid (b # c # d # r)
      else if in_range 0xC2 0xDF a then cont_byte b \<and> utf8_valid (c # d # r)
      else if in_range 0xE0 0xEF a then
        (in_range 0xE0 0xE0 a \<and> in_range 0xA0 0xBF b
         \<or> in_range 0xE1 0xEC a \<and> cont_byte b
         \<or> in_range 0xED 0xED a \<and> in_range 0x80 0x9F b
         \<or> in_range 0xEE 0xEF a \<and> cont_byte b) \<and> cont_byte c \<and> utf8_valid (d # r)
      else (in_range 0xF0 0xF0 a \<and> in_range 0x90 0xBF b
            \<or> in_range 0xF1 0xF3 a \<and> cont_byte b
            \<or> in_range 0xF4 0xF4 a \<and> in_range 0x80 0x8F b)
           \<and> cont_byte c \<and> cont_byte d \<and> utf8_valid r)"

definition decode :: "string \<Rightarrow> error + string" where
  "decode b = (if utf8_valid b then Inr b else Inl UnicodeDecodeError)"

text \<open>The characters of a text, each as a one-character text (iteration, indexing and
  \<^verbatim>\<open>len\<close> count characters, not bytes).\<close>

definition cp_len :: "char \<Rightarrow> nat" where
  "cp_len c = (if (of_char c :: nat) < 0xC0 then 1 else if (of_char c :: nat) < 0xE0 then 2
               else if (of_char c :: nat) < 0xF0 then 3 else 4)"

fun codepoints :: "string \<Rightarrow> string list" where
  "codepoints [] = []"
| "codepoints (c # cs) = (c # take (cp_len c - 1) cs) # codepoints (drop (cp_len c - 1) cs)"

text \<open>\<^verbatim>\<open>p in s\<close> on two texts.\<close>

fun is_substr :: "string \<Rightarrow> string \<Rightarrow> bool" where
  "is_substr p [] = (p = [])"
| "is_substr p (c # cs) = (take (length p) (c # cs) = p \<or> is_substr p cs)"

text \<open>\<^verbatim>\<open>str(i)\<close> of an integer.\<close>

definition digit_char :: "nat \<Rightarrow> char" where
  "digit_char d = ''0123456789'' ! (d mod 10)"

fun dec_nat :: "nat \<Rightarrow> string" where
  "dec_nat n = (if n < 10 then [digit_char n] else dec_nat (n div 10) @ [digit_char n])"

definition str_int :: "int \<Rightarrow> string" where
  "str_int i = (if i < 0 then CHR ''-'' # dec_nat (nat (- i)) else dec_nat (nat i))"

declare dec_nat.simps [simp del]

subsection \<open>Operations on values\<close>

text \<open>Sequencing of a computation that may raise.\<close>

definition seq :: "error + 'a \<Rightarrow> ('a \<Rightarrow> error + 'b) \<Rightarrow> error + 'b" where
  "seq m f = (case m of Inl e \<Rightarrow> Inl e | Inr x \<Rightarrow> f x)"

definition assert :: "bool \<Rightarrow> error + unit" where
  "assert b = (if b then Inr () else Inl AssertionError)"

text \<open>\<^verbatim>\<open>x == y\<close>. Containers compare by content, element by element and stopping at the
  first difference; the same object is equal to itself. The depth of the comparison is
  bounded (Python raises \<^verbatim>\<open>RecursionError\<close> on a cyclic structure; None stands for
  it).\<close>

fun num_of :: "pyval \<Rightarrow> int option" where
  "num_of (PInt i) = Some i"
| "num_of (PBool b) = Some (if b then 1 else 0)"
| "num_of v = None"

fun all_true :: "bool option list \<Rightarrow> bool option" where
  "all_true [] = Some True"
| "all_true (None # r) = None"
| "all_true (Some b # r) = (if b then all_true r else Some False)"

fun py_eq :: "nat \<Rightarrow> store \<Rightarrow> pyval \<Rightarrow> pyval \<Rightarrow> bool option" where
  "py_eq n h (PRef a) (PRef b) =
     (if a = b then Some True
      else case n of
        0 \<Rightarrow> None
      | Suc m \<Rightarrow>
         (case (obj_at h a, obj_at h b) of
            (Some (PList xs), Some (PList ys)) \<Rightarrow>
              if length xs = length ys
              then all_true (map (\<lambda>(x, y). py_eq m h x y) (zip xs ys))
              else Some False
          | (Some (PDict d), Some (PDict e)) \<Rightarrow>
              if length d = length e
              then all_true (map (\<lambda>(k, v). case map_of e k of
                                               None \<Rightarrow> Some False
                                             | Some v' \<Rightarrow> py_eq m h v v') d)
              else Some False
          | _ \<Rightarrow> Some False))"
| "py_eq n h x y =
     Some (case (num_of x, num_of y) of
             (Some i, Some j) \<Rightarrow> i = j
           | (None, None) \<Rightarrow> x = y
           | _ \<Rightarrow> False)"

text \<open>\<^verbatim>\<open>k in c\<close>: a key of a dictionary (a list or dictionary is unhashable), an element
  of a list, a substring of a text; None, booleans and integers are not iterable.\<close>

fun contains :: "store \<Rightarrow> pyval \<Rightarrow> pyval \<Rightarrow> error + bool" where
  "contains h k (PStr s) = (case k of PStr p \<Rightarrow> Inr (is_substr p s) | _ \<Rightarrow> Inl TypeError)"
| "contains h k (PRef a) =
     (case obj_at h a of
        Some (PDict d) \<Rightarrow>
          (case k of
             PStr p \<Rightarrow> Inr (map_of d p \<noteq> None)
           | PRef b \<Rightarrow> Inl TypeError
           | _ \<Rightarrow> Inr False)
      | Some (PList xs) \<Rightarrow>
          (case all_true (map (\<lambda>x. map_option Not (py_eq (length h * length h) h x k)) xs) of
             None \<Rightarrow> Inl RecursionError
           | Some b \<Rightarrow> Inr (\<not> b))
      | None \<Rightarrow> Inl TypeError)"
| "contains h k c = Inl TypeError"

text \<open>\<^verbatim>\<open>c[k]\<close>: a dictionary by key, a list or a text by position (negative positions
  count from the end).\<close>

definition list_index :: "'a list \<Rightarrow> int \<Rightarrow> error + 'a" where
  "list_index xs i =
     (if 0 \<le> i \<and> i < int (length xs) then Inr (xs ! nat i)
      else if i < 0 \<and> 0 \<le> i + int (length xs) then Inr (xs ! nat (i + int (length xs)))
      else Inl IndexError)"

fun subscript :: "store \<Rightarrow> pyval \<Rightarrow> pyval \<Rightarrow> error + pyval" where
  "subscript h (PRef a) k =
     (case obj_at h a of
        Some (PDict d) \<Rightarrow>
          (case k of
             PStr s \<Rightarrow> (case map_of d s of Some v \<Rightarrow> Inr v | None \<Rightarrow> Inl KeyError)
           | PRef b \<Rightarrow> Inl TypeError
           | _ \<Rightarrow> Inl KeyError)
      | Some (PList xs) \<Rightarrow>
          (case num_of k of Some i \<Rightarrow> list_index xs i | None \<Rightarrow> Inl TypeError)
      | None \<Rightarrow> Inl TypeError)"
| "subscript h (PStr s) k =
     (case num_of k of
        Some i \<Rightarrow> seq (list_index (codepoints s) i) (\<lambda>c. Inr (PStr c))
      | None \<Rightarrow> Inl TypeError)"
| "subscript h c k = Inl TypeError"

text \<open>The elements a \<^verbatim>\<open>for\<close> loop sees: of a list its elements, of a dictionary its keys,
  of a text its characters.\<close>

fun iter :: "store \<Rightarrow> pyval \<Rightarrow> error + pyval list" where
  "iter h (PRef a) =
     (case obj_at h a of
        Some (PList xs) \<Rightarrow> Inr xs
      | Some (PDict d) \<Rightarrow> Inr (map (\<lambda>(k, v). PStr k) d)
      | None \<Rightarrow> Inl TypeError)"
| "iter h (PStr s) = Inr (map PStr (codepoints s))"
| "iter h v = Inl TypeError"

fun len :: "store \<Rightarrow> pyval \<Rightarrow> error + nat" where
  "len h (PRef a) =
     (case obj_at h a of
        Some (PList xs) \<Rightarrow> Inr (length xs)
      | Some (PDict d) \<Rightarrow> Inr (length d)
      | None \<Rightarrow> Inl TypeError)"
| "len h (PStr s) = Inr (length (codepoints s))"
| "len h v = Inl TypeError"

section \<open>The world outside the engine\<close>

text \<open>
  What the engine calls and this repository does not define is a parameter of the
  model: \<^verbatim>\<open>exec\<close> and \<^verbatim>\<open>eval\<close> of configuration text, \<^verbatim>\<open>repr\<close> of a container,
  \<^verbatim>\<open>os.path.abspath\<close>, \<^verbatim>\<open>os.path.isdir\<close>, \<^verbatim>\<open>uuid.uuid4\<close> (the name it gives at its n-th
  call), \<^verbatim>\<open>open\<close>, \<^verbatim>\<open>shutil.copyfile\<close>, and the child process: \<^verbatim>\<open>subprocess.Popen\<close> with
  \<^verbatim>\<open>communicate\<close>, which answers an exception or the exit status with the bytes the child
  wrote to standard output and standard error.
\<close>

datatype stream = Inherit | Pipe | File pyval

datatype eval_result = EvBytes string | EvStr string | EvOther

datatype effect = Opened pyval bool | Copied pyval pyval

record world =
  py_exec :: "string \<Rightarrow> error option"
  py_eval :: "string \<Rightarrow> error + eval_result"
  py_repr :: "store \<Rightarrow> addr \<Rightarrow> string"
  abspath :: "string \<Rightarrow> string"
  isdir :: "string \<Rightarrow> bool"
  uuid4 :: "nat \<Rightarrow> string"
  fopen :: "pyval \<Rightarrow> bool \<Rightarrow> error option"
  copyfile :: "pyval \<Rightarrow> pyval \<Rightarrow> error option"
  popen :: "string list \<Rightarrow> stream \<Rightarrow> string option \<Rightarrow> stream \<Rightarrow> stream
            \<Rightarrow> error + int \<times> string \<times> string"

text \<open>\<^verbatim>\<open>str(v)\<close>.\<close>

fun py_str :: "world \<Rightarrow> store \<Rightarrow> pyval \<Rightarrow> string" where
  "py_str w h PNone = ''None''"
| "py_str w h (PBool b) = (if b then ''True'' else ''False'')"
| "py_str w h (PInt i) = str_int i"
| "py_str w h (PStr s) = s"
| "py_str w h (PRef a) = py_repr w h a"

text \<open>\<^verbatim>\<open>os.path.join(a, b)\<close> of \<^verbatim>\<open>posixpath\<close>.\<close>

definition join :: "string \<Rightarrow> string \<Rightarrow> string" where
  "join a b =
     (if take 1 b = ''/'' then b
      else if a = [] \<or> last a = CHR ''/'' then a @ b
      else a @ ''/'' @ b)"

section \<open>\<^verbatim>\<open>CommandLineTask.run_task\<close>: resolving the labels (lines 93 to 125)\<close>

text \<open>
  An element of \<^verbatim>\<open>inputs\<close> or \<^verbatim>\<open>outputs\<close> is what the loop calls \<^verbatim>\<open>inp\<close>: a new list of
  items when the entry of the label is a string (\<open>Multi\<close>), a new dictionary otherwise
  (\<open>Single\<close>, the address of the dictionary). The lists are created here and only read
  afterwards, so they are HOL lists; the dictionaries and the items are objects of the
  store, since \<^verbatim>\<open>command_line_tool\<close> writes to what they refer to.
\<close>

datatype io = Single pyval | Multi "pyval list"

text \<open>Lines 99 to 104: \<^verbatim>\<open>for item in fw_spec[cmd_spec[label]]\<close>.\<close>

fun wrap_items :: "store \<Rightarrow> pyval list \<Rightarrow> error + pyval list \<times> store" where
  "wrap_items h [] = Inr ([], h)"
| "wrap_items h (item # items) =
     seq (contains h (PStr ''source'') item) (\<lambda>b.
       case (if b then (item, h) else alloc (PDict [(''source'', item)]) h) of
         (x, h1) \<Rightarrow> seq (wrap_items h1 items) (\<lambda>(xs, h2). Inr (x # xs, h2)))"

text \<open>Lines 110 to 124: one of the fields \<^verbatim>\<open>binding\<close>, \<^verbatim>\<open>source\<close>, \<^verbatim>\<open>target\<close>.\<close>

definition resolve_field :: "store \<Rightarrow> pyval \<Rightarrow> pyval \<Rightarrow> error + pyval" where
  "resolve_field h fw_spec item =
     (case item of
        PStr s \<Rightarrow>
          seq (subscript h fw_spec (PStr s)) (\<lambda>v.
            if is_list h v then subscript h v (PInt 0) else Inr v)
      | _ \<Rightarrow> if is_dict h item then Inr item else Inl ValueError)"

text \<open>Lines 106 to 124: \<^verbatim>\<open>for key in ['binding', 'source', 'target']\<close>, with
  \<open>entry\<close> for \<^verbatim>\<open>cmd_spec[label]\<close> and \<open>inp\<close> for the dictionary built so far.\<close>

fun resolve_fields ::
  "store \<Rightarrow> pyval \<Rightarrow> pyval \<Rightarrow> string list \<Rightarrow> (string \<times> pyval) list
   \<Rightarrow> error + (string \<times> pyval) list" where
  "resolve_fields h fw_spec entry [] inp = Inr inp"
| "resolve_fields h fw_spec entry (key # keys) inp =
     seq (contains h (PStr key) entry) (\<lambda>present.
       if present then
         seq (subscript h entry (PStr key)) (\<lambda>item.
           seq (resolve_field h fw_spec item) (\<lambda>v.
             resolve_fields h fw_spec entry keys (dict_set inp key v)))
       else resolve_fields h fw_spec entry keys inp)"

text \<open>Lines 98 to 125: the body of \<^verbatim>\<open>for label in labels\<close>.\<close>

definition resolve_label :: "store \<Rightarrow> pyval \<Rightarrow> pyval \<Rightarrow> string \<Rightarrow> error + io \<times> store" where
  "resolve_label h cmd_spec fw_spec label =
     seq (subscript h cmd_spec (PStr label)) (\<lambda>entry.
       case entry of
         PStr s \<Rightarrow>
           seq (subscript h fw_spec (PStr s)) (\<lambda>v.
             seq (iter h v) (\<lambda>items.
               seq (wrap_items h items) (\<lambda>(inp, h1). Inr (Multi inp, h1))))
       | _ \<Rightarrow>
           seq (resolve_fields h fw_spec entry [''binding'', ''source'', ''target''] [])
             (\<lambda>inp. case alloc (PDict inp) h of (r, h1) \<Rightarrow> Inr (Single r, h1)))"

fun resolve_labels :: "store \<Rightarrow> pyval \<Rightarrow> pyval \<Rightarrow> string list \<Rightarrow> error + io list \<times> store" where
  "resolve_labels h cmd_spec fw_spec [] = Inr ([], h)"
| "resolve_labels h cmd_spec fw_spec (label # labels) =
     seq (resolve_label h cmd_spec fw_spec label) (\<lambda>(inp, h1).
       seq (resolve_labels h1 cmd_spec fw_spec labels) (\<lambda>(ios, h2). Inr (inp # ios, h2)))"

section \<open>\<^verbatim>\<open>run_task\<close>: the command and the environment (lines 127 to 227)\<close>

text \<open>Lines 127 to 129: a command given as one string becomes a new one-element list; a
  command given as a list is that very list object.\<close>

definition get_command :: "store \<Rightarrow> pyval \<Rightarrow> error + pyval \<times> store" where
  "get_command h cmd_spec =
     seq (subscript h cmd_spec (PStr ''command'')) (\<lambda>command.
       if is_str command then Inr (alloc (PList [command]) h)
       else seq (assert (is_list h command)) (\<lambda>u. Inr (command, h)))"

text \<open>Lines 156 to 161 and 170 to 175: the \<^verbatim>\<open>init\<close> code of a profile or of a command
  entry (\<open>scope\<close>), run by \<^verbatim>\<open>exec\<close>.\<close>

fun exec_all :: "world \<Rightarrow> pyval list \<Rightarrow> error + unit" where
  "exec_all w [] = Inr ()"
| "exec_all w (cmd # cmds) =
     (case cmd of
        PStr s \<Rightarrow> (case py_exec w s of Some e \<Rightarrow> Inl e | None \<Rightarrow> exec_all w cmds)
      | _ \<Rightarrow> Inl TypeError)"

definition run_init :: "world \<Rightarrow> store \<Rightarrow> pyval \<Rightarrow> error + unit" where
  "run_init w h scope =
     seq (contains h (PStr ''init'') scope) (\<lambda>present.
       if present then
         seq (subscript h scope (PStr ''init'')) (\<lambda>init.
           if is_str init then exec_all w [init]
           else seq (assert (is_list h init)) (\<lambda>u. seq (iter h init) (exec_all w)))
       else Inr ())"

text \<open>Lines 187 to 216: one entry of the prefix list.\<close>

definition process_prefix :: "world \<Rightarrow> store \<Rightarrow> pyval \<Rightarrow> error + string list" where
  "process_prefix w h prefix =
     (if is_dict h prefix then
        seq (contains h (PStr ''eval'') prefix) (\<lambda>has_eval.
          if has_eval then
            seq (subscript h prefix (PStr ''eval'')) (\<lambda>expr.
              case expr of
                PStr s \<Rightarrow>
                  seq (py_eval w s) (\<lambda>r.
                    case r of
                      EvBytes b \<Rightarrow> seq (decode b) (\<lambda>t. Inr (split t))
                    | EvStr t \<Rightarrow> Inr (split t)
                    | EvOther \<Rightarrow> Inl ValueError)
              | _ \<Rightarrow> Inl TypeError)
          else Inl ValueError)
      else case prefix of PStr s \<Rightarrow> Inr (split s) | _ \<Rightarrow> Inl ValueError)"

text \<open>Lines 185 to 218: the loop over the prefix list, \<open>acc\<close> being
  \<^verbatim>\<open>processed_prefix_list\<close>.\<close>

fun process_prefix_list :: "world \<Rightarrow> store \<Rightarrow> pyval list \<Rightarrow> string list \<Rightarrow> error + string list" where
  "process_prefix_list w h [] acc = Inr acc"
| "process_prefix_list w h (prefix # prefixes) acc =
     seq (process_prefix w h prefix) (\<lambda>processed.
       process_prefix_list w h prefixes (acc @ processed))"

definition elems :: "store \<Rightarrow> pyval \<Rightarrow> error + pyval list" where
  "elems h v =
     (case v of
        PRef a \<Rightarrow> (case obj_at h a of Some (PList xs) \<Rightarrow> Inr xs | _ \<Rightarrow> Inl TypeError)
      | _ \<Rightarrow> Inl TypeError)"

text \<open>Lines 180 to 223: \<^verbatim>\<open>command = processed_prefix_list + command\<close> is a new list.\<close>

definition expand_prefix :: "world \<Rightarrow> store \<Rightarrow> pyval \<Rightarrow> pyval \<Rightarrow> error + pyval \<times> store" where
  "expand_prefix w h entry command =
     seq (contains h (PStr ''prefix'') entry) (\<lambda>present.
       if present then
         seq (subscript h entry (PStr ''prefix'')) (\<lambda>prefix_list.
           seq (if is_list h prefix_list then iter h prefix_list else Inr [prefix_list])
             (\<lambda>prefixes.
               seq (process_prefix_list w h prefixes []) (\<lambda>processed.
                 seq (elems h command) (\<lambda>xs.
                   Inr (alloc (PList (map PStr processed @ xs)) h)))))
       else Inr (command, h))"

text \<open>Lines 152 to 227.\<close>

definition expand_env ::
  "world \<Rightarrow> store \<Rightarrow> pyval \<Rightarrow> string option \<Rightarrow> pyval \<Rightarrow> error + pyval \<times> store" where
  "expand_env w h fw_spec env_name command =
     (case env_name of
        None \<Rightarrow> Inr (command, h)
      | Some name \<Rightarrow>
          if name = [] then Inr (command, h)
          else
            seq (contains h (PStr ''_fw_env'') fw_spec) (\<lambda>has_table.
              if \<not> has_table then Inr (command, h)
              else
                seq (subscript h fw_spec (PStr ''_fw_env'')) (\<lambda>table.
                seq (contains h (PStr name) table) (\<lambda>has_profile.
                  if \<not> has_profile then Inr (command, h)
                  else
                    seq (subscript h table (PStr name)) (\<lambda>profile.
                    seq (run_init w h profile) (\<lambda>u.
                    seq (subscript h command (PInt 0)) (\<lambda>head.
                    seq (contains h (PStr ''cmd'') profile) (\<lambda>has_cmd.
                      if \<not> has_cmd then Inr (command, h)
                      else
                        seq (subscript h profile (PStr ''cmd'')) (\<lambda>cmds.
                        seq (contains h head cmds) (\<lambda>listed.
                          if \<not> listed then Inr (command, h)
                          else
                            seq (subscript h cmds head) (\<lambda>entry.
                            seq (run_init w h entry) (\<lambda>u.
                              expand_prefix w h entry command))))))))))))"

section \<open>\<^verbatim>\<open>CommandLineTask.command_line_tool\<close> (lines 252 to 380)\<close>

text \<open>
  The state a call works on: the objects, the files opened and copied so far (in order),
  and the number of names drawn from \<^verbatim>\<open>uuid4\<close>. The local variables \<^verbatim>\<open>stdin\<close>,
  \<^verbatim>\<open>stdout\<close>, \<^verbatim>\<open>stderr\<close> and \<^verbatim>\<open>stdininp\<close> are the record \<open>streams\<close>. A function that
  writes returns the state also when it raises.
\<close>

record state =
  objs :: store
  effects :: "effect list"
  drawn :: nat

record streams =
  stdin :: stream
  stdout :: stream
  stderr :: stream
  stdininp :: "string option"

definition seqS ::
  "(error + 'a) \<times> state \<Rightarrow> ('a \<Rightarrow> state \<Rightarrow> (error + 'b) \<times> state) \<Rightarrow> (error + 'b) \<times> state" where
  "seqS m f = (case m of (Inl e, st) \<Rightarrow> (Inl e, st) | (Inr x, st) \<Rightarrow> f x st)"

text \<open>Lines 279 to 286. \<^verbatim>\<open>argstr += x\<close> raises TypeError unless \<open>x\<close> is a text.\<close>

definition add_text :: "string \<Rightarrow> pyval \<Rightarrow> error + string" where
  "add_text argstr x = (case x of PStr s \<Rightarrow> Inr (argstr @ s) | _ \<Rightarrow> Inl TypeError)"

definition add_field :: "store \<Rightarrow> pyval \<Rightarrow> string \<Rightarrow> string \<Rightarrow> error + string" where
  "add_field h binding key argstr =
     seq (contains h (PStr key) binding) (\<lambda>present.
       if present then seq (subscript h binding (PStr key)) (add_text argstr)
       else Inr argstr)"

definition set_binding :: "store \<Rightarrow> pyval \<Rightarrow> error + string" where
  "set_binding h arg =
     seq (contains h (PStr ''binding'') arg) (\<lambda>present.
       if present then
         seq (subscript h arg (PStr ''binding'')) (\<lambda>binding.
           seq (add_field h binding ''prefix'' []) (\<lambda>argstr.
             add_field h binding ''separator'' argstr))
       else Inr [])"

text \<open>\<^verbatim>\<open>open(name, mode)\<close>; \<open>wr\<close> is the mode \<^verbatim>\<open>'w'\<close>.\<close>

definition open_file :: "world \<Rightarrow> pyval \<Rightarrow> bool \<Rightarrow> state \<Rightarrow> (error + unit) \<times> state" where
  "open_file w name wr st =
     (case name of
        PRef a \<Rightarrow> (Inl TypeError, st)
      | PNone \<Rightarrow> (Inl TypeError, st)
      | _ \<Rightarrow>
         (case fopen w name wr of
            Some e \<Rightarrow> (Inl e, st)
          | None \<Rightarrow> (Inr (), st\<lparr>effects := effects st @ [Opened name wr]\<rparr>)))"

text \<open>Lines 320 to 321 and 357 to 358: \<^verbatim>\<open>if len(argstr) > 0: arglist.append(argstr)\<close>.\<close>

definition append_arg :: "pyval \<Rightarrow> string \<Rightarrow> state \<Rightarrow> (error + unit) \<times> state" where
  "append_arg arglist argstr st =
     (if argstr = [] then (Inr (), st)
      else case arglist of
        PRef a \<Rightarrow>
          (case obj_at (objs st) a of
             Some (PList xs) \<Rightarrow>
               (Inr (), st\<lparr>objs := (objs st)[a := PList (xs @ [PStr argstr])]\<rparr>)
           | _ \<Rightarrow> (Inl AttributeError, st))
      | _ \<Rightarrow> (Inl AttributeError, st))"

text \<open>\<^verbatim>\<open>d[key] = v\<close> on an object.\<close>

definition setitem :: "pyval \<Rightarrow> string \<Rightarrow> pyval \<Rightarrow> state \<Rightarrow> (error + unit) \<times> state" where
  "setitem c key v st =
     (case c of
        PRef a \<Rightarrow>
          (case obj_at (objs st) a of
             Some (PDict d) \<Rightarrow> (Inr (), st\<lparr>objs := (objs st)[a := PDict (dict_set d key v)]\<rparr>)
           | _ \<Rightarrow> (Inl TypeError, st))
      | _ \<Rightarrow> (Inl TypeError, st))"

subsection \<open>Inputs (lines 293 to 321)\<close>

text \<open>Lines 297 to 300: the binding text, and the type and the value of the source.\<close>

definition read_source :: "store \<Rightarrow> pyval \<Rightarrow> error + string \<times> pyval \<times> pyval" where
  "read_source h arg =
     seq (set_binding h arg) (\<lambda>argstr.
     seq (contains h (PStr ''source'') arg) (\<lambda>has_source.
     seq (assert has_source) (\<lambda>u.
     seq (subscript h arg (PStr ''source'')) (\<lambda>src.
     seq (subscript h src (PStr ''type'')) (\<lambda>stype.
     seq (assert (stype \<noteq> PNone)) (\<lambda>u.
     seq (subscript h arg (PStr ''source'')) (\<lambda>src.
     seq (subscript h src (PStr ''value'')) (\<lambda>sval.
     seq (assert (sval \<noteq> PNone)) (\<lambda>u.
       Inr (argstr, stype, sval))))))))))"

text \<open>Lines 301 to 311: an input with a target goes to standard input.\<close>

definition redirect_stdin ::
  "world \<Rightarrow> pyval \<Rightarrow> pyval \<Rightarrow> pyval \<Rightarrow> streams \<Rightarrow> state \<Rightarrow> (error + streams) \<times> state" where
  "redirect_stdin w arg stype sval io st =
     (case seq (subscript (objs st) arg (PStr ''target'')) (\<lambda>tgt.
           seq (assert (tgt \<noteq> PNone)) (\<lambda>u.
           seq (subscript (objs st) tgt (PStr ''type'')) (\<lambda>ttype.
             assert (ttype = PStr ''stdin'')))) of
        Inl e \<Rightarrow> (Inl e, st)
      | Inr u \<Rightarrow>
          if stype = PStr ''path'' then
            seqS (open_file w sval False st) (\<lambda>u st1. (Inr (io\<lparr>stdin := File sval\<rparr>), st1))
          else if stype = PStr ''data'' then
            (Inr (io\<lparr>stdin := Pipe, stdininp := Some (py_str w (objs st) sval)\<rparr>), st)
          else (Inl NotImplementedError, st))"

text \<open>Lines 312 to 319: an input without a target is an argument.\<close>

definition add_source :: "world \<Rightarrow> store \<Rightarrow> string \<Rightarrow> pyval \<Rightarrow> pyval \<Rightarrow> error + string" where
  "add_source w h argstr stype sval =
     (if stype = PStr ''path'' then add_text argstr sval
      else if stype = PStr ''data'' then Inr (argstr @ py_str w h sval)
      else Inl NotImplementedError)"

text \<open>Lines 297 to 321: the body of \<^verbatim>\<open>for arg in argl\<close>.\<close>

definition build_input ::
  "world \<Rightarrow> pyval \<Rightarrow> pyval \<Rightarrow> streams \<Rightarrow> state \<Rightarrow> (error + streams) \<times> state" where
  "build_input w arglist arg io st =
     (case seq (read_source (objs st) arg) (\<lambda>(argstr, stype, sval).
           seq (contains (objs st) (PStr ''target'') arg) (\<lambda>has_target.
             Inr (argstr, stype, sval, has_target))) of
        Inl e \<Rightarrow> (Inl e, st)
      | Inr (argstr, stype, sval, has_target) \<Rightarrow>
          if has_target then
            seqS (redirect_stdin w arg stype sval io st) (\<lambda>io1 st1.
            seqS (append_arg arglist argstr st1) (\<lambda>u st2. (Inr io1, st2)))
          else
            (case add_source w (objs st) argstr stype sval of
               Inl e \<Rightarrow> (Inl e, st)
             | Inr argstr1 \<Rightarrow>
                 seqS (append_arg arglist argstr1 st) (\<lambda>u st1. (Inr io, st1))))"

fun build_args ::
  "world \<Rightarrow> pyval \<Rightarrow> pyval list \<Rightarrow> streams \<Rightarrow> state \<Rightarrow> (error + streams) \<times> state" where
  "build_args w arglist [] io st = (Inr io, st)"
| "build_args w arglist (arg # args) io st =
     seqS (build_input w arglist arg io st) (build_args w arglist args)"

text \<open>Line 295: \<^verbatim>\<open>argl = inp if isinstance(inp, list) else [inp]\<close>.\<close>

fun argl :: "io \<Rightarrow> pyval list" where
  "argl (Multi xs) = xs"
| "argl (Single a) = [a]"

definition build_inputs ::
  "world \<Rightarrow> pyval \<Rightarrow> io list \<Rightarrow> streams \<Rightarrow> state \<Rightarrow> (error + streams) \<times> state" where
  "build_inputs w arglist ins io st = build_args w arglist (concat (map argl ins)) io st"

subsection \<open>Outputs (lines 323 to 358)\<close>

text \<open>Lines 325 to 329: \<^verbatim>\<open>if isinstance(arg, list): arg = arg[0]\<close>, the binding text and
  the target.\<close>

definition first_arg :: "io \<Rightarrow> error + pyval" where
  "first_arg out = (case out of Multi xs \<Rightarrow> list_index xs 0 | Single a \<Rightarrow> Inr a)"

definition read_target :: "store \<Rightarrow> pyval \<Rightarrow> error + string \<times> pyval \<times> pyval" where
  "read_target h arg =
     seq (set_binding h arg) (\<lambda>argstr.
     seq (contains h (PStr ''target'') arg) (\<lambda>has_target.
     seq (assert has_target) (\<lambda>u.
     seq (subscript h arg (PStr ''target'')) (\<lambda>tgt.
     seq (assert (tgt \<noteq> PNone)) (\<lambda>u.
     seq (subscript h tgt (PStr ''type'')) (\<lambda>ttype.
       Inr (argstr, tgt, ttype)))))))"

text \<open>Lines 331 to 336: the path of a target of type \<^verbatim>\<open>path\<close>. \<^verbatim>\<open>os.path.abspath\<close>
  raises TypeError unless the value is a text.\<close>

definition target_path :: "world \<Rightarrow> pyval \<Rightarrow> state \<Rightarrow> (error + string) \<times> state" where
  "target_path w tgt st =
     (case seq (contains (objs st) (PStr ''value'') tgt) (\<lambda>has_value.
           seq (assert has_value) (\<lambda>u.
           seq (subscript (objs st) tgt (PStr ''value'')) (\<lambda>v.
           seq (len (objs st) v) (\<lambda>n.
           seq (assert (n > 0)) (\<lambda>u.
             case v of PStr s \<Rightarrow> Inr (abspath w s) | _ \<Rightarrow> Inl TypeError))))) of
        Inl e \<Rightarrow> (Inl e, st)
      | Inr path \<Rightarrow>
          if isdir w path
          then (Inr (join path (uuid4 w (drawn st))), st\<lparr>drawn := Suc (drawn st)\<rparr>)
          else (Inr path, st))"

text \<open>Lines 339 to 351: what the source of an output with a path target asks for.\<close>

definition connect_source ::
  "world \<Rightarrow> pyval \<Rightarrow> string \<Rightarrow> string \<Rightarrow> streams \<Rightarrow> state
   \<Rightarrow> (error + string \<times> streams) \<times> state" where
  "connect_source w arg path argstr io st =
     (case seq (contains (objs st) (PStr ''source'') arg) (\<lambda>has_source.
           if has_source then
             seq (subscript (objs st) arg (PStr ''source'')) (\<lambda>src.
             seq (assert (src \<noteq> PNone)) (\<lambda>u.
             seq (contains (objs st) (PStr ''type'') src) (\<lambda>has_type.
             seq (assert has_type) (\<lambda>u.
             seq (subscript (objs st) arg (PStr ''source'')) (\<lambda>src.
             seq (subscript (objs st) src (PStr ''type'')) (\<lambda>stype.
               Inr (Some stype)))))))
           else Inr None) of
        Inl e \<Rightarrow> (Inl e, st)
      | Inr None \<Rightarrow> (Inr (argstr @ path, io), st)
      | Inr (Some stype) \<Rightarrow>
          if stype = PStr ''stdout'' then
            seqS (open_file w (PStr path) True st) (\<lambda>u st1.
              (Inr (argstr, io\<lparr>stdout := File (PStr path)\<rparr>), st1))
          else if stype = PStr ''stderr'' then
            seqS (open_file w (PStr path) True st) (\<lambda>u st1.
              (Inr (argstr, io\<lparr>stderr := File (PStr path)\<rparr>), st1))
          else if stype = PStr ''path'' then (Inr (argstr, io), st)
          else (Inr (argstr @ path, io), st))"

text \<open>Lines 325 to 358: the body of \<^verbatim>\<open>for arg in outputs\<close>.\<close>

definition build_output ::
  "world \<Rightarrow> pyval \<Rightarrow> io \<Rightarrow> streams \<Rightarrow> state \<Rightarrow> (error + streams) \<times> state" where
  "build_output w arglist out io st =
     (case seq (first_arg out) (\<lambda>arg.
           seq (read_target (objs st) arg) (\<lambda>(argstr, tgt, ttype).
             Inr (arg, argstr, tgt, ttype))) of
        Inl e \<Rightarrow> (Inl e, st)
      | Inr (arg, argstr, tgt, ttype) \<Rightarrow>
          if ttype = PStr ''path'' then
            seqS (target_path w tgt st) (\<lambda>path st1.
            seqS (setitem tgt ''value'' (PStr path) st1) (\<lambda>u st2.
            seqS (connect_source w arg path argstr io st2) (\<lambda>(argstr1, io1) st3.
            seqS (append_arg arglist argstr1 st3) (\<lambda>u st4. (Inr io1, st4)))))
          else if ttype = PStr ''data'' then
            seqS (append_arg arglist argstr st) (\<lambda>u st1. (Inr (io\<lparr>stdout := Pipe\<rparr>), st1))
          else (Inl NotImplementedError, st))"

fun build_outputs ::
  "world \<Rightarrow> pyval \<Rightarrow> io list \<Rightarrow> streams \<Rightarrow> state \<Rightarrow> (error + streams) \<times> state" where
  "build_outputs w arglist [] io st = (Inr io, st)"
| "build_outputs w arglist (out # outs) io st =
     seqS (build_output w arglist out io st) (build_outputs w arglist outs)"

subsection \<open>The child process (lines 360 to 364)\<close>

text \<open>\<^verbatim>\<open>Popen\<close> takes a list of texts (or one text, the program); \<^verbatim>\<open>communicate\<close>
  returns None for a stream that is not a pipe. A non-zero exit status raises
  \<^verbatim>\<open>RuntimeError(res[1])\<close>.\<close>

fun texts :: "pyval list \<Rightarrow> error + string list" where
  "texts [] = Inr []"
| "texts (v # vs) =
     (case v of PStr s \<Rightarrow> seq (texts vs) (\<lambda>ss. Inr (s # ss)) | _ \<Rightarrow> Inl TypeError)"

definition argv :: "store \<Rightarrow> pyval \<Rightarrow> error + string list" where
  "argv h arglist = (case arglist of PStr s \<Rightarrow> Inr [s] | _ \<Rightarrow> seq (elems h arglist) texts)"

definition captured :: "stream \<Rightarrow> string \<Rightarrow> string option" where
  "captured s bytes = (if s = Pipe then Some bytes else None)"

definition execute :: "world \<Rightarrow> store \<Rightarrow> pyval \<Rightarrow> streams \<Rightarrow> error + string option \<times> string option" where
  "execute w h arglist io =
     seq (argv h arglist) (\<lambda>args.
     seq (popen w args (stdin io) (stdininp io) (stdout io) (stderr io)) (\<lambda>(returncode, out, err).
       if returncode \<noteq> 0 then Inl (RuntimeError (captured (stderr io) err))
       else Inr (captured (stdout io) out, captured (stderr io) err)))"

subsection \<open>Harvesting the outputs (lines 366 to 380)\<close>

text \<open>Lines 369 to 375. An output that is a list has no key \<^verbatim>\<open>'target'\<close>: TypeError.\<close>

definition copy_source :: "world \<Rightarrow> pyval \<Rightarrow> state \<Rightarrow> (error + unit) \<times> state" where
  "copy_source w output st =
     (case seq (contains (objs st) (PStr ''source'') output) (\<lambda>has_source.
           if has_source then
             seq (subscript (objs st) output (PStr ''source'')) (\<lambda>src.
             seq (subscript (objs st) src (PStr ''type'')) (\<lambda>stype.
               if stype = PStr ''path'' then
                 seq (subscript (objs st) output (PStr ''source'')) (\<lambda>src.
                 seq (subscript (objs st) src (PStr ''value'')) (\<lambda>sval.
                 seq (subscript (objs st) output (PStr ''target'')) (\<lambda>tgt.
                 seq (subscript (objs st) tgt (PStr ''value'')) (\<lambda>tval.
                   Inr (Some (sval, tval))))))
               else Inr None))
           else Inr None) of
        Inl e \<Rightarrow> (Inl e, st)
      | Inr None \<Rightarrow> (Inr (), st)
      | Inr (Some (sval, tval)) \<Rightarrow>
          (case copyfile w sval tval of
             Some e \<Rightarrow> (Inl e, st)
           | None \<Rightarrow> (Inr (), st\<lparr>effects := effects st @ [Copied sval tval]\<rparr>)))"

text \<open>Lines 376 to 377: \<^verbatim>\<open>res[0].decode().strip()\<close>; None has no \<^verbatim>\<open>decode\<close>.\<close>

definition store_data :: "string option \<Rightarrow> pyval \<Rightarrow> state \<Rightarrow> (error + unit) \<times> state" where
  "store_data res0 output st =
     (case seq (subscript (objs st) output (PStr ''target'')) (\<lambda>tgt.
           seq (subscript (objs st) tgt (PStr ''type'')) (\<lambda>ttype.
             if ttype = PStr ''data'' then
               (case res0 of
                  None \<Rightarrow> Inl AttributeError
                | Some bytes \<Rightarrow>
                    seq (decode bytes) (\<lambda>text.
                    seq (subscript (objs st) output (PStr ''target'')) (\<lambda>tgt.
                      Inr (Some (tgt, strip text)))))
             else Inr None)) of
        Inl e \<Rightarrow> (Inl e, st)
      | Inr None \<Rightarrow> (Inr (), st)
      | Inr (Some (tgt, text)) \<Rightarrow> setitem tgt ''value'' (PStr text) st)"

text \<open>Lines 369 to 378: the body of \<^verbatim>\<open>for output in outputs\<close>; the result is the element
  appended to \<^verbatim>\<open>retlist\<close>.\<close>

definition harvest_output ::
  "world \<Rightarrow> string option \<Rightarrow> io \<Rightarrow> state \<Rightarrow> (error + pyval) \<times> state" where
  "harvest_output w res0 out st =
     (case out of
        Multi xs \<Rightarrow> (Inl TypeError, st)
      | Single output \<Rightarrow>
          seqS (copy_source w output st) (\<lambda>u st1.
          seqS (store_data res0 output st1) (\<lambda>u st2.
            (subscript (objs st2) output (PStr ''target''), st2))))"

fun harvest ::
  "world \<Rightarrow> string option \<Rightarrow> io list \<Rightarrow> state \<Rightarrow> (error + pyval list) \<times> state" where
  "harvest w res0 [] st = (Inr [], st)"
| "harvest w res0 (out # outs) st =
     seqS (harvest_output w res0 out st) (\<lambda>r st1.
     seqS (harvest w res0 outs st1) (\<lambda>rs st2. (Inr (r # rs), st2)))"

subsection \<open>The whole function\<close>

definition build ::
  "world \<Rightarrow> pyval \<Rightarrow> io list option \<Rightarrow> io list option \<Rightarrow> state \<Rightarrow> (error + streams) \<times> state" where
  "build w command ins outs st =
     seqS (case ins of
             None \<Rightarrow> (Inr \<lparr>stdin = Inherit, stdout = Inherit, stderr = Pipe, stdininp = None\<rparr>, st)
           | Some xs \<Rightarrow>
               build_inputs w command xs
                 \<lparr>stdin = Inherit, stdout = Inherit, stderr = Pipe, stdininp = None\<rparr> st)
       (\<lambda>io st1.
          case outs of None \<Rightarrow> (Inr io, st1) | Some ys \<Rightarrow> build_outputs w command ys io st1)"

definition command_line_tool ::
  "world \<Rightarrow> pyval \<Rightarrow> io list option \<Rightarrow> io list option \<Rightarrow> state
   \<Rightarrow> (error + pyval list) \<times> state" where
  "command_line_tool w command ins outs st =
     seqS (build w command ins outs st) (\<lambda>io st1.
       case execute w (objs st1) command io of
         Inl e \<Rightarrow> (Inl e, st1)
       | Inr res \<Rightarrow>
           (case outs of None \<Rightarrow> (Inr [], st1) | Some ys \<Rightarrow> harvest w (fst res) ys st1))"

section \<open>\<^verbatim>\<open>run_task\<close>: the result (lines 229 to 249)\<close>

text \<open>\<^verbatim>\<open>FWAction\<close> is constructed with the keyword arguments \<^verbatim>\<open>update_spec\<close> and
  \<^verbatim>\<open>mod_spec\<close>; None is an argument that is not given. One element of \<^verbatim>\<open>mod_spec\<close> is
  \<^verbatim>\<open>{'_push': {olab: item}}\<close>.\<close>

datatype modifier = Push string pyval

datatype fw_action =
  FWAction (update_spec: "(string \<times> pyval) list option") (mod_spec: "modifier list option")

text \<open>Lines 236 to 238, several labels: \<^verbatim>\<open>for item in out\<close>.\<close>

fun push_items :: "store \<Rightarrow> (string \<times> pyval) list \<Rightarrow> error + modifier list" where
  "push_items h [] = Inr []"
| "push_items h ((olab, out) # rest) =
     seq (iter h out) (\<lambda>items.
     seq (push_items h rest) (\<lambda>ms. Inr (map (Push olab) items @ ms)))"

text \<open>Lines 240 to 241, at most one label: \<^verbatim>\<open>olabels[0]\<close> for every element.\<close>

fun push_first :: "string list \<Rightarrow> pyval list \<Rightarrow> error + modifier list" where
  "push_first olabels [] = Inr []"
| "push_first olabels (out # outlist) =
     seq (list_index olabels 0) (\<lambda>olab.
     seq (push_first olabels outlist) (\<lambda>ms. Inr (Push olab out # ms)))"

text \<open>Lines 244 to 246.\<close>

fun output_dict ::
  "(string \<times> pyval) list \<Rightarrow> (string \<times> pyval) list \<Rightarrow> (string \<times> pyval) list" where
  "output_dict d [] = d"
| "output_dict d ((olab, out) # rest) = output_dict (dict_set d olab out) rest"

definition propagate ::
  "store \<Rightarrow> int option \<Rightarrow> string list \<Rightarrow> pyval list \<Rightarrow> error + fw_action" where
  "propagate h chunk olabels outlist =
     (if length outlist > 0 then
        (case chunk of
           Some n \<Rightarrow>
             if length olabels > 1 then
               seq (assert (length olabels = length outlist)) (\<lambda>u.
               seq (push_items h (zip olabels outlist)) (\<lambda>ms. Inr (FWAction None (Some ms))))
             else seq (push_first olabels outlist) (\<lambda>ms. Inr (FWAction None (Some ms)))
         | None \<Rightarrow> Inr (FWAction (Some (output_dict [] (zip olabels outlist))) None))
      else Inr (FWAction None None))"

section \<open>\<^verbatim>\<open>run_task\<close> (lines 78 to 249)\<close>

text \<open>The parameters of the task: \<^verbatim>\<open>self['command_spec']\<close>, \<^verbatim>\<open>self.get('inputs')\<close>,
  \<^verbatim>\<open>self.get('outputs')\<close>, \<^verbatim>\<open>self.get('chunk_number')\<close>, \<^verbatim>\<open>self.get('env')\<close>. The labels
  are lists of texts (the assertions of lines 87 and 91 hold).\<close>

record task =
  command_spec :: pyval
  inputs :: "string list option"
  outputs :: "string list option"
  chunk_number :: "int option"
  env :: "string option"

definition labels :: "string list option \<Rightarrow> string list" where
  "labels l = (case l of None \<Rightarrow> [] | Some ls \<Rightarrow> ls)"

text \<open>Lines 79 to 227: everything before the call of \<^verbatim>\<open>command_line_tool\<close>. Nothing is
  written to an object here; the new objects are added to the store.\<close>

definition prepare ::
  "world \<Rightarrow> task \<Rightarrow> pyval \<Rightarrow> store \<Rightarrow> error + (pyval \<times> io list \<times> io list) \<times> store" where
  "prepare w self fw_spec h =
     seq (resolve_labels h (command_spec self) fw_spec (labels (inputs self))) (\<lambda>(ins, h1).
     seq (resolve_labels h1 (command_spec self) fw_spec (labels (outputs self))) (\<lambda>(outs, h2).
     seq (get_command h2 (command_spec self)) (\<lambda>(command, h3).
     seq (expand_env w h3 fw_spec (env self) command) (\<lambda>(command1, h4).
       Inr ((command1, ins, outs), h4)))))"

definition run_task :: "world \<Rightarrow> task \<Rightarrow> pyval \<Rightarrow> state \<Rightarrow> (error + fw_action) \<times> state" where
  "run_task w self fw_spec st =
     (case prepare w self fw_spec (objs st) of
        Inl e \<Rightarrow> (Inl e, st)
      | Inr ((command, ins, outs), h) \<Rightarrow>
          seqS (command_line_tool w command (Some ins) (Some outs) (st\<lparr>objs := h\<rparr>))
            (\<lambda>outlist st1.
               (propagate (objs st1) (chunk_number self) (labels (outputs self)) outlist, st1)))"

section \<open>Vocabulary of the properties\<close>

text \<open>The file copies among the effects of a state.\<close>

fun is_copy :: "effect \<Rightarrow> bool" where
  "is_copy (Copied a b) = True"
| "is_copy (Opened n m) = False"

definition copies :: "state \<Rightarrow> effect list" where
  "copies st = filter is_copy (effects st)"

subsection \<open>A concrete world and concrete specifications\<close>

text \<open>
  A world for the examples: nothing fails; \<^verbatim>\<open>eval\<close> answers the text \<^verbatim>\<open>-n 4\<close>;
  \<^verbatim>\<open>/existing/directory\<close> is the one directory; a program named \<^verbatim>\<open>false\<close> exits with
  status 2 and writes \<^verbatim>\<open>boom\<close> to standard error; \<^verbatim>\<open>echo hello\<close> writes \<^verbatim>\<open>hello\<close> and a
  newline to standard output; every other program writes nothing and exits with 0.
\<close>

definition example_world :: world where
  "example_world =
     \<lparr>py_exec = (\<lambda>s. None),
      py_eval = (\<lambda>s. Inr (EvStr ''-n 4'')),
      py_repr = (\<lambda>h a. ''[...]''),
      abspath = (\<lambda>p. if take 1 p = ''/'' then p else ''/cwd/'' @ p),
      isdir = (\<lambda>p. p = ''/existing/directory''),
      uuid4 = (\<lambda>n. ''6fa459ea-ee8a-4ca4-894e-db77e160355'' @ [digit_char n]),
      fopen = (\<lambda>name wr. None),
      copyfile = (\<lambda>a b. None),
      popen = (\<lambda>args i inp out err.
                 if take 1 args = [''false''] then Inr (2, [], ''boom'')
                 else if args = [''echo'', ''hello''] then Inr (0, ''hello\<newline>'', [])
                 else Inr (0, [], []))\<rparr>"

definition fresh :: "store \<Rightarrow> state" where
  "fresh h = \<lparr>objs = h, effects = [], drawn = 0\<rparr>"

text \<open>
  \<^verbatim>\<open>command_spec = {'command': ['echo', 'hello'], 'o': {'target': {'type': 'data'}},
  'p': {'target': {'type': 'data'}}}\<close> at address 0 and \<^verbatim>\<open>fw_spec = {}\<close> at address 6.
\<close>

definition two_outputs :: store where
  "two_outputs =
     [PDict [(''command'', PRef 1), (''o'', PRef 2), (''p'', PRef 4)],
      PList [PStr ''echo'', PStr ''hello''],
      PDict [(''target'', PRef 3)], PDict [(''type'', PStr ''data'')],
      PDict [(''target'', PRef 5)], PDict [(''type'', PStr ''data'')],
      PDict []]"

text \<open>
  \<^verbatim>\<open>command_spec = {'command': ['false'], 'a': {'source': {'type': 'data', 'value': 'x'}}}\<close>
  at address 0 and \<^verbatim>\<open>fw_spec = {}\<close> at address 4.
\<close>

definition failing_command :: store where
  "failing_command =
     [PDict [(''command'', PRef 1), (''a'', PRef 2)],
      PList [PStr ''false''],
      PDict [(''source'', PRef 3)], PDict [(''type'', PStr ''data''), (''value'', PStr ''x'')],
      PDict []]"

subsection \<open>The shape of an argument descriptor\<close>

text \<open>
  \<open>binding_of h d pre sep\<close>: the dictionary \<open>d\<close> has no binding (then \<open>pre\<close> and \<open>sep\<close>
  are None), or its binding is a dictionary whose \<^verbatim>\<open>prefix\<close> and \<^verbatim>\<open>separator\<close>, where
  present, are the texts \<open>pre\<close> and \<open>sep\<close>. \<open>source_of h d stype sval\<close>: the source of \<open>d\<close>
  is a dictionary with the type \<open>stype\<close> and the value \<open>sval\<close>. \<open>target_of h d t td\<close>: the
  target of \<open>d\<close> is the dictionary \<open>td\<close> at the address \<open>t\<close>.
\<close>

definition text_of :: "string option \<Rightarrow> string" where
  "text_of t = (case t of None \<Rightarrow> [] | Some s \<Rightarrow> s)"

definition binding_of ::
  "store \<Rightarrow> (string \<times> pyval) list \<Rightarrow> string option \<Rightarrow> string option \<Rightarrow> bool" where
  "binding_of h d pre sep =
     (case map_of d ''binding'' of
        None \<Rightarrow> pre = None \<and> sep = None
      | Some b \<Rightarrow>
          (case b of
             PRef r \<Rightarrow>
               (case obj_at h r of
                  Some (PDict bd) \<Rightarrow>
                    map_of bd ''prefix'' = map_option PStr pre
                    \<and> map_of bd ''separator'' = map_option PStr sep
                | _ \<Rightarrow> False)
           | _ \<Rightarrow> False))"

definition source_of :: "store \<Rightarrow> (string \<times> pyval) list \<Rightarrow> pyval \<Rightarrow> pyval \<Rightarrow> bool" where
  "source_of h d stype sval =
     (case map_of d ''source'' of
        Some (PRef r) \<Rightarrow>
          (case obj_at h r of
             Some (PDict sd) \<Rightarrow> map_of sd ''type'' = Some stype \<and> map_of sd ''value'' = Some sval
           | _ \<Rightarrow> False)
      | _ \<Rightarrow> False)"

definition target_of ::
  "store \<Rightarrow> (string \<times> pyval) list \<Rightarrow> addr \<Rightarrow> (string \<times> pyval) list \<Rightarrow> bool" where
  "target_of h d t td = (map_of d ''target'' = Some (PRef t) \<and> obj_at h t = Some (PDict td))"

text \<open>
  \<^verbatim>\<open>command_spec = {'command': ['echo'], 'a': {'source': {'type': 'data', 'value':
  'hello'}}, 'o': {'target': {'type': 'data'}}}\<close> at address 0 and \<^verbatim>\<open>fw_spec = {}\<close> at
  address 6.
\<close>

definition echo_hello :: store where
  "echo_hello =
     [PDict [(''command'', PRef 1), (''a'', PRef 2), (''o'', PRef 4)],
      PList [PStr ''echo''],
      PDict [(''source'', PRef 3)], PDict [(''type'', PStr ''data''), (''value'', PStr ''hello'')],
      PDict [(''target'', PRef 5)], PDict [(''type'', PStr ''data'')],
      PDict []]"

text \<open>
  The arguments \<^verbatim>\<open>['cat']\<close> at address 0 and, at address 1, the input
  \<^verbatim>\<open>{'binding': {'prefix': '-'}, 'source': {'type': 'data', 'value': 42}, 'target':
  {'type': 'stdin'}}\<close>.
\<close>

definition stdin_example :: store where
  "stdin_example =
     [PList [PStr ''cat''],
      PDict [(''binding'', PRef 2), (''source'', PRef 3), (''target'', PRef 4)],
      PDict [(''prefix'', PStr ''-'')],
      PDict [(''type'', PStr ''data''), (''value'', PInt 42)],
      PDict [(''type'', PStr ''stdin'')]]"

subsection \<open>The claim about the resolution of a field, in its own words\<close>

text \<open>
  Following the claim C5, for a field of a structured entry, \<open>fd\<close> being the workflow
  spec: a string is replaced by the workflow spec's value at that key, by the first
  element of that value when it is a list; a dictionary is used as it is. None stands
  for an error: a value of another type, a key that the workflow spec does not have, a
  list without a first element.
\<close>

definition spec_resolve :: "store \<Rightarrow> (string \<times> pyval) list \<Rightarrow> pyval \<Rightarrow> pyval option" where
  "spec_resolve h fd item =
     (case item of
        PStr s \<Rightarrow>
          (case map_of fd s of
             None \<Rightarrow> None
           | Some x \<Rightarrow>
               (case x of
                  PRef b \<Rightarrow>
                    (case obj_at h b of
                       Some (PList ys) \<Rightarrow> (case ys of [] \<Rightarrow> None | y # r \<Rightarrow> Some y)
                     | _ \<Rightarrow> Some x)
                | _ \<Rightarrow> Some x))
      | PRef c \<Rightarrow> (case obj_at h c of Some (PDict e) \<Rightarrow> Some item | _ \<Rightarrow> None)
      | _ \<Rightarrow> None)"

text \<open>The fields of the resolved entry, in the order of the keys: for every key of the
  entry \<open>d\<close>, what its value resolves to.\<close>

definition spec_fields ::
  "store \<Rightarrow> (string \<times> pyval) list \<Rightarrow> (string \<times> pyval) list \<Rightarrow> string list
   \<Rightarrow> (string \<times> pyval) list" where
  "spec_fields h fd d keys =
     concat (map (\<lambda>k. case Option.bind (map_of d k) (spec_resolve h fd) of
                         None \<Rightarrow> []
                       | Some v \<Rightarrow> [(k, v)]) keys)"

text \<open>
  \<^verbatim>\<open>command_spec = {'command': ['echo'], 'a': {'binding': {'prefix': '-x'}, 'source':
  'key1', 'target': 'key2'}, 'b': {'source': 7}}\<close> at address 0 and \<^verbatim>\<open>fw_spec = {'key1':
  [{'type': 'data', 'value': 1}, {'type': 'data', 'value': 2}], 'key2': {'type':
  'stdin'}}\<close> at address 5.
\<close>

definition references :: store where
  "references =
     [PDict [(''command'', PRef 1), (''a'', PRef 2), (''b'', PRef 4)],
      PList [PStr ''echo''],
      PDict [(''binding'', PRef 3), (''source'', PStr ''key1''), (''target'', PStr ''key2'')],
      PDict [(''prefix'', PStr ''-x'')],
      PDict [(''source'', PInt 7)],
      PDict [(''key1'', PRef 6), (''key2'', PRef 9)],
      PList [PRef 7, PRef 8],
      PDict [(''type'', PStr ''data''), (''value'', PInt 1)],
      PDict [(''type'', PStr ''data''), (''value'', PInt 2)],
      PDict [(''type'', PStr ''stdin'')]]"

subsection \<open>The claim about a prefix entry, in its own words\<close>

text \<open>
  Following the claim C6, the tokens of one entry of a prefix list: a literal string is
  split at whitespace; a record \<^verbatim>\<open>{eval: expression}\<close> is evaluated, the result decoded
  when it is bytes, and then split at whitespace. None stands for an error: an entry of
  another shape, an evaluation that raises, or a result that is not a text after
  decoding.
\<close>

definition spec_tokens :: "world \<Rightarrow> store \<Rightarrow> pyval \<Rightarrow> string list option" where
  "spec_tokens w h p =
     (case p of
        PStr s \<Rightarrow> Some (split s)
      | PRef a \<Rightarrow>
          (case obj_at h a of
             Some (PDict d) \<Rightarrow>
               (case map_of d ''eval'' of
                  Some (PStr x) \<Rightarrow>
                    (case py_eval w x of
                       Inr (EvStr t) \<Rightarrow> Some (split t)
                     | Inr (EvBytes b) \<Rightarrow>
                         (case decode b of Inr t \<Rightarrow> Some (split t) | Inl e \<Rightarrow> None)
                     | _ \<Rightarrow> None)
                | _ \<Rightarrow> None)
           | _ \<Rightarrow> None)
      | _ \<Rightarrow> None)"

text \<open>
  The command \<^verbatim>\<open>['foo', 'in.txt']\<close> at address 0 and, at address 1, \<^verbatim>\<open>fw_spec =
  {'_fw_env': {'m': {'cmd': {'foo': {'prefix': ['mpirun', {'eval': 'options'}]}}}}}\<close>.
\<close>

definition profile_example :: store where
  "profile_example =
     [PList [PStr ''foo'', PStr ''in.txt''],
      PDict [(''_fw_env'', PRef 2)],
      PDict [(''m'', PRef 3)],
      PDict [(''cmd'', PRef 4)],
      PDict [(''foo'', PRef 5)],
      PDict [(''prefix'', PRef 6)],
      PList [PStr ''mpirun'', PRef 7],
      PDict [(''eval'', PStr ''options'')]]"

subsection \<open>What a call may change in the store\<close>

text \<open>
  The targets of the resolved outputs: for each output the object that
  \<^verbatim>\<open>arg['target']\<close> is (lines 325 to 329).
\<close>

fun target_addrs :: "store \<Rightarrow> io list \<Rightarrow> addr list" where
  "target_addrs h [] = []"
| "target_addrs h (out # outs) =
     (case seq (first_arg out) (\<lambda>arg. subscript h arg (PStr ''target'')) of
        Inr (PRef t) \<Rightarrow> [t]
      | _ \<Rightarrow> [])
     @ target_addrs h outs"

text \<open>The address of the argument list, when the command is a list object.\<close>

fun list_addr :: "pyval \<Rightarrow> addr set" where
  "list_addr (PRef l) = {l}"
| "list_addr v = {}"

text \<open>
  \<open>evolves may_append may_set ob ob'\<close>: the object \<open>ob'\<close> is \<open>ob\<close>, or (where allowed) the
  list \<open>ob\<close> with elements appended, or (where allowed) the dictionary \<open>ob\<close> with its
  entry \<^verbatim>\<open>value\<close> set. \<open>frame L T h h'\<close>: the store \<open>h'\<close> has the objects of \<open>h\<close>, of which
  only the lists at the addresses \<open>L\<close> and the dictionaries at the addresses \<open>T\<close> may have
  changed so.
\<close>

definition evolves :: "bool \<Rightarrow> bool \<Rightarrow> pyobj \<Rightarrow> pyobj \<Rightarrow> bool" where
  "evolves may_append may_set ob ob' =
     (ob' = ob
      \<or> may_append \<and> (\<exists>xs ys. ob = PList xs \<and> ob' = PList (xs @ ys))
      \<or> may_set \<and> (\<exists>d v. ob = PDict d \<and> ob' = PDict (dict_set d ''value'' v)))"

definition frame :: "addr set \<Rightarrow> addr set \<Rightarrow> store \<Rightarrow> store \<Rightarrow> bool" where
  "frame L T h h' =
     (length h' = length h \<and> (\<forall>a. a < length h \<longrightarrow> evolves (a \<in> L) (a \<in> T) (h ! a) (h' ! a)))"

subsection \<open>What an output asks of standard output\<close>

text \<open>
  \<open>type_of h out key\<close> is \<^verbatim>\<open>arg[key]['type']\<close> for the argument of the output \<open>out\<close>. An
  output is a data output when the type of its target is \<^verbatim>\<open>data\<close> (line 352); it sends
  standard output to a file when the type of its target is \<^verbatim>\<open>path\<close> and the type of its
  source is \<^verbatim>\<open>stdout\<close> (lines 330 and 342).
\<close>

definition type_of :: "store \<Rightarrow> io \<Rightarrow> string \<Rightarrow> error + pyval" where
  "type_of h out key =
     seq (first_arg out) (\<lambda>arg.
     seq (subscript h arg (PStr key)) (\<lambda>x. subscript h x (PStr ''type'')))"

definition is_data :: "store \<Rightarrow> io \<Rightarrow> bool" where
  "is_data h out = (type_of h out ''target'' = Inr (PStr ''data''))"

definition to_file :: "store \<Rightarrow> io \<Rightarrow> bool" where
  "to_file h out =
     (type_of h out ''target'' = Inr (PStr ''path'')
      \<and> type_of h out ''source'' = Inr (PStr ''stdout''))"

text \<open>\<open>set_to v h h'\<close>: the store \<open>h'\<close> is \<open>h\<close> but for dictionaries whose entry \<^verbatim>\<open>value\<close>
  has been set to \<open>v\<close>.\<close>

definition set_to :: "pyval \<Rightarrow> store \<Rightarrow> store \<Rightarrow> bool" where
  "set_to v h h' =
     (length h' = length h
      \<and> (\<forall>a. a < length h \<longrightarrow>
            h' ! a = h ! a \<or> (\<exists>d. h ! a = PDict d \<and> h' ! a = PDict (dict_set d ''value'' v))))"

text \<open>
  The arguments \<^verbatim>\<open>['echo', 'hello']\<close> at address 0, the output \<^verbatim>\<open>{'target': {'type':
  'data'}}\<close> at address 1 and the output \<^verbatim>\<open>{'target': {'type': 'path', 'value':
  '/tmp/out.txt'}, 'source': {'type': 'stdout'}}\<close> at address 3.
\<close>

definition data_and_file :: store where
  "data_and_file =
     [PList [PStr ''echo'', PStr ''hello''],
      PDict [(''target'', PRef 2)], PDict [(''type'', PStr ''data'')],
      PDict [(''target'', PRef 4), (''source'', PRef 5)],
      PDict [(''type'', PStr ''path''), (''value'', PStr ''/tmp/out.txt'')],
      PDict [(''type'', PStr ''stdout'')]]"

section \<open>Properties\<close>

lemmas model_defs =
  seq_def seqS_def assert_def obj_at_def alloc_def list_index_def
  resolve_field_def resolve_label_def get_command_def run_init_def process_prefix_def
  elems_def expand_prefix_def expand_env_def
  add_text_def add_field_def set_binding_def open_file_def append_arg_def setitem_def
  read_source_def redirect_stdin_def add_source_def build_input_def build_inputs_def
  first_arg_def read_target_def target_path_def connect_source_def build_output_def
  argv_def captured_def execute_def copy_source_def store_data_def harvest_output_def
  build_def command_line_tool_def propagate_def labels_def prepare_def run_task_def
  copies_def fresh_def example_world_def join_def

lemmas text_defs =
  strip_def split_def decode_def ascii_ws_def ws2_def ws3_def in_range_def cont_byte_def
  cp_len_def digit_char_def str_int_def

subsection \<open>No file is copied while the arguments are built\<close>

lemma seqS_copies:
  assumes "copies (snd m) = copies st"
    and "\<And>x s1. copies s1 = copies st \<Longrightarrow> copies (snd (f x s1)) = copies st"
  shows "copies (snd (seqS m f)) = copies st"
  using assms by (cases m) (auto simp: seqS_def split: sum.splits)

lemma open_file_copies: "copies (snd (open_file w n m st)) = copies st"
  by (auto simp: open_file_def copies_def split: pyval.splits option.splits)

lemma append_arg_copies: "copies (snd (append_arg al s st)) = copies st"
  by (auto simp: append_arg_def copies_def split: pyval.splits option.splits pyobj.splits)

lemma setitem_copies: "copies (snd (setitem c k v st)) = copies st"
  by (auto simp: setitem_def copies_def split: pyval.splits option.splits pyobj.splits)

lemma target_path_copies: "copies (snd (target_path w tgt st)) = copies st"
  by (auto simp: target_path_def copies_def split: sum.splits)

lemma redirect_stdin_copies: "copies (snd (redirect_stdin w arg stype sval io st)) = copies st"
  unfolding redirect_stdin_def
  by (auto split: sum.splits intro!: seqS_copies simp: open_file_copies)

lemma connect_source_copies:
  "copies (snd (connect_source w arg path argstr io st)) = copies st"
  unfolding connect_source_def
  by (auto split: sum.splits option.splits intro!: seqS_copies simp: open_file_copies)

lemma build_input_copies: "copies (snd (build_input w al arg io st)) = copies st"
  unfolding build_input_def
  by (auto split: sum.splits intro!: seqS_copies simp: redirect_stdin_copies append_arg_copies)

lemma build_output_copies: "copies (snd (build_output w al out io st)) = copies st"
  unfolding build_output_def
  by (auto split: sum.splits intro!: seqS_copies
      simp: target_path_copies setitem_copies connect_source_copies append_arg_copies)

lemma build_args_copies: "copies (snd (build_args w al args io st)) = copies st"
proof (induction args arbitrary: io st)
  case Nil
  show ?case by simp
next
  case (Cons arg args)
  show ?case
    unfolding build_args.simps
  proof (rule seqS_copies)
    show "copies (snd (build_input w al arg io st)) = copies st" by (rule build_input_copies)
  next
    fix x s1 assume "copies s1 = copies st"
    with Cons.IH [of x s1] show "copies (snd (build_args w al args x s1)) = copies st" by simp
  qed
qed

lemma build_outputs_copies: "copies (snd (build_outputs w al outs io st)) = copies st"
proof (induction outs arbitrary: io st)
  case Nil
  show ?case by simp
next
  case (Cons out outs)
  show ?case
    unfolding build_outputs.simps
  proof (rule seqS_copies)
    show "copies (snd (build_output w al out io st)) = copies st" by (rule build_output_copies)
  next
    fix x s1 assume "copies s1 = copies st"
    with Cons.IH [of x s1] show "copies (snd (build_outputs w al outs x s1)) = copies st" by simp
  qed
qed

lemma build_copies: "copies (snd (build w command ins outs st)) = copies st"
  unfolding build_def build_inputs_def
  by (auto split: option.splits intro!: seqS_copies simp: build_args_copies build_outputs_copies)

subsection \<open>C1: a non-zero exit status\<close>

text \<open>
  C1. When the arguments were built (the builder returned the streams \<open>io\<close> and left the
  state \<open>st1\<close>) and the child process exits with a status other than zero,
  \<^verbatim>\<open>command_line_tool\<close> raises \<^verbatim>\<open>RuntimeError\<close> carrying what was captured of standard
  error. No output record is returned, and the state is the one the builder left: the
  harvesting loop has not run, so it has copied no file and rewritten no target value;
  and the builder itself copies no file.
\<close>

theorem nonzero_exit_raises:
  assumes "build w command ins outs st = (Inr io, st1)"
    and "argv (objs st1) command = Inr args"
    and "popen w args (stdin io) (stdininp io) (stdout io) (stderr io) = Inr (rc, out, err)"
    and "rc \<noteq> 0"
  shows "command_line_tool w command ins outs st
           = (Inl (RuntimeError (captured (stderr io) err)), st1)
         \<and> copies st1 = copies st"
  using assms build_copies [of w command ins outs st]
  by (simp add: command_line_tool_def seqS_def execute_def seq_def)

theorem nonzero_exit_raises_witness:
  "command_line_tool example_world (PRef 1) (Some [Single (PRef 2)]) (Some [])
       (fresh failing_command)
     = (Inl (RuntimeError (Some ''boom'')),
        fresh (failing_command[1 := PList [PStr ''false'', PStr ''x'']]))
   \<and> copies (fresh (failing_command[1 := PList [PStr ''false'', PStr ''x'']]))
       = copies (fresh failing_command)"
  using nonzero_exit_raises [of example_world "PRef 1" "Some [Single (PRef 2)]" "Some []"
      "fresh failing_command"
      "\<lparr>stdin = Inherit, stdout = Inherit, stderr = Pipe, stdininp = None\<rparr>"
      "fresh (failing_command[1 := PList [PStr ''false'', PStr ''x'']])"
      "[''false'', ''x'']" 2 "[]" "''boom''"]
  by (simp add: model_defs failing_command_def)

subsection \<open>C2: appending and replacing\<close>

text \<open>
  With no chunk index every label is set to its record (lines 244 to 247), and with a
  chunk index and one label the record is pushed to that label (lines 240 to 241).
\<close>

lemma replace_without_chunk:
  "outlist \<noteq> [] \<Longrightarrow>
   propagate h None olabels outlist
     = Inr (FWAction (Some (output_dict [] (zip olabels outlist))) None)"
  by (simp add: propagate_def)

lemma push_with_one_label:
  "propagate h (Some n) [olab] [out] = Inr (FWAction None (Some [Push olab out]))"
  by (simp add: propagate_def seq_def list_index_def)

text \<open>
  C2 (the code departs from the claim). With a chunk index and several labels, lines
  236 to 238 iterate over each record (\<^verbatim>\<open>for item in out\<close>); a record is the target
  dictionary, so what is pushed to the label are the keys of the record, \<^verbatim>\<open>'type'\<close> and
  \<^verbatim>\<open>'value'\<close>, and not the record. Here the task has the outputs \<^verbatim>\<open>o\<close> and \<^verbatim>\<open>p\<close>, both
  with a target of type \<^verbatim>\<open>data\<close>, and the chunk index 0; the records are the objects 3
  and 5.
\<close>

theorem push_several_labels:
  "fst (run_task example_world
          \<lparr>command_spec = PRef 0, inputs = None, outputs = Some [''o'', ''p''],
           chunk_number = Some 0, env = None\<rparr>
          (PRef 6) (fresh two_outputs))
     = Inr (FWAction None
              (Some [Push ''o'' (PStr ''type''), Push ''o'' (PStr ''value''),
                     Push ''p'' (PStr ''type''), Push ''p'' (PStr ''value'')]))"
  by (simp add: model_defs two_outputs_def text_defs)

subsection \<open>C3: no declared outputs\<close>

lemma tool_no_outputs:
  assumes "outs = None \<or> outs = Some []"
  shows "command_line_tool w command ins outs st =
           (case build w command ins outs st of
              (Inl e, st1) \<Rightarrow> (Inl e, st1)
            | (Inr io, st1) \<Rightarrow>
                (case execute w (objs st1) command io of
                   Inl e \<Rightarrow> (Inl e, st1)
                 | Inr res \<Rightarrow> (Inr [], st1)))"
  using assms
  by (auto simp: command_line_tool_def seqS_def split: prod.splits sum.splits)

lemma tool_no_outputs_copies:
  assumes "outs = None \<or> outs = Some []"
  shows "copies (snd (command_line_tool w command ins outs st)) = copies st"
  using build_copies [of w command ins outs st]
  by (auto simp: tool_no_outputs [OF assms] split: prod.splits sum.splits)

lemma prepare_no_outputs:
  assumes "outputs self = None \<or> outputs self = Some []"
    and "prepare w self fw_spec h = Inr ((command, ins, outs), h1)"
  shows "outs = []"
  using assms
  by (auto simp: prepare_def labels_def seq_def split: sum.splits prod.splits)

text \<open>
  C3. When \<^verbatim>\<open>outputs\<close> is None or the empty list, \<^verbatim>\<open>command_line_tool\<close> returns the empty
  list or raises, and it returns the empty list whenever the arguments are built and the
  process exits with status zero; in every case it copies no file. When the task declares
  no outputs, \<^verbatim>\<open>run_task\<close> returns \<^verbatim>\<open>FWAction()\<close>, with neither \<^verbatim>\<open>update_spec\<close> nor
  \<^verbatim>\<open>mod_spec\<close>, or raises, and copies no file; this holds for all inputs, specifications
  and worlds.
\<close>

theorem no_outputs_no_update:
  "(outs = None \<or> outs = Some [] \<longrightarrow>
      (fst (command_line_tool w command ins outs st) = Inr []
       \<or> (\<exists>e. fst (command_line_tool w command ins outs st) = Inl e))
      \<and> copies (snd (command_line_tool w command ins outs st)) = copies st
      \<and> (\<forall>io st1 res. build w command ins outs st = (Inr io, st1)
             \<and> execute w (objs st1) command io = Inr res
           \<longrightarrow> command_line_tool w command ins outs st = (Inr [], st1)))
   \<and> (outputs self = None \<or> outputs self = Some [] \<longrightarrow>
      (fst (run_task w self fw_spec st) = Inr (FWAction None None)
       \<or> (\<exists>e. fst (run_task w self fw_spec st) = Inl e))
      \<and> copies (snd (run_task w self fw_spec st)) = copies st)"
proof (intro conjI impI)
  assume o: "outs = None \<or> outs = Some []"
  show "fst (command_line_tool w command ins outs st) = Inr []
       \<or> (\<exists>e. fst (command_line_tool w command ins outs st) = Inl e)"
    by (auto simp: tool_no_outputs [OF o] split: prod.splits sum.splits)
  show "copies (snd (command_line_tool w command ins outs st)) = copies st"
    by (rule tool_no_outputs_copies [OF o])
  show "\<forall>io st1 res. build w command ins outs st = (Inr io, st1)
             \<and> execute w (objs st1) command io = Inr res
           \<longrightarrow> command_line_tool w command ins outs st = (Inr [], st1)"
    by (auto simp: tool_no_outputs [OF o])
next
  assume o: "outputs self = None \<or> outputs self = Some []"
  show "fst (run_task w self fw_spec st) = Inr (FWAction None None)
       \<or> (\<exists>e. fst (run_task w self fw_spec st) = Inl e)"
  proof (cases "prepare w self fw_spec (objs st)")
    case (Inl e)
    then show ?thesis by (simp add: run_task_def)
  next
    case (Inr r)
    obtain command ins outs h where r: "r = ((command, ins, outs), h)" by (cases r) auto
    from Inr r have "prepare w self fw_spec (objs st) = Inr ((command, ins, outs), h)" by simp
    then have e: "outs = []" by (rule prepare_no_outputs [OF o])
    have t: "fst (command_line_tool w command (Some ins) (Some []) (st\<lparr>objs := h\<rparr>)) = Inr []
       \<or> (\<exists>e. fst (command_line_tool w command (Some ins) (Some []) (st\<lparr>objs := h\<rparr>)) = Inl e)"
      by (auto simp: tool_no_outputs split: prod.splits sum.splits)
    show ?thesis
      using Inr r e t
      by (cases "command_line_tool w command (Some ins) (Some []) (st\<lparr>objs := h\<rparr>)")
         (auto simp: run_task_def seqS_def propagate_def)
  qed
  show "copies (snd (run_task w self fw_spec st)) = copies st"
  proof (cases "prepare w self fw_spec (objs st)")
    case (Inl e)
    then show ?thesis by (simp add: run_task_def)
  next
    case (Inr r)
    obtain command ins outs h where r: "r = ((command, ins, outs), h)" by (cases r) auto
    from Inr r have "prepare w self fw_spec (objs st) = Inr ((command, ins, outs), h)" by simp
    then have e: "outs = []" by (rule prepare_no_outputs [OF o])
    have "copies (snd (command_line_tool w command (Some ins) (Some []) (st\<lparr>objs := h\<rparr>)))
            = copies (st\<lparr>objs := h\<rparr>)"
      by (rule tool_no_outputs_copies) simp
    then show ?thesis
      using Inr r e
      by (cases "command_line_tool w command (Some ins) (Some []) (st\<lparr>objs := h\<rparr>)")
         (auto simp: run_task_def seqS_def copies_def split: sum.splits)
  qed
qed

theorem no_outputs_no_update_witness:
  "command_line_tool example_world (PRef 1) None None (fresh two_outputs)
     = (Inr [], fresh two_outputs)
   \<and> fst (run_task example_world
        \<lparr>command_spec = PRef 0, inputs = None, outputs = Some [], chunk_number = Some 0,
         env = None\<rparr>
        (PRef 6) (fresh two_outputs)) = Inr (FWAction None None)
   \<and> copies (snd (run_task example_world
        \<lparr>command_spec = PRef 0, inputs = None, outputs = Some [], chunk_number = Some 0,
         env = None\<rparr>
        (PRef 6) (fresh two_outputs))) = []"
  using no_outputs_no_update [of None example_world "PRef 1" None "fresh two_outputs"
      "\<lparr>command_spec = PRef 0, inputs = None, outputs = Some [], chunk_number = Some 0,
        env = None\<rparr>"
      "PRef 6"]
  by (simp add: model_defs two_outputs_def)

subsection \<open>C7 and C10: the argument of an input\<close>

lemma set_binding_text:
  assumes "obj_at h a = Some (PDict d)" and "binding_of h d pre sep"
  shows "set_binding h (PRef a) = Inr (text_of pre @ text_of sep)"
  using assms
  by (cases pre; cases sep)
     (auto simp: set_binding_def add_field_def add_text_def seq_def binding_of_def text_of_def
           split: option.splits pyval.splits pyobj.splits)

lemma read_source_ok:
  assumes "obj_at h a = Some (PDict d)" and "binding_of h d pre sep"
    and "source_of h d stype sval" and "stype \<noteq> PNone" and "sval \<noteq> PNone"
  shows "read_source h (PRef a) = Inr (text_of pre @ text_of sep, stype, sval)"
  using assms set_binding_text [OF assms(1,2)]
  by (auto simp: read_source_def seq_def assert_def source_of_def
           split: option.splits pyval.splits pyobj.splits)

text \<open>
  C7. An input that is a dictionary without a target, whose binding (where there is one)
  has the prefix \<open>pre\<close> and the separator \<open>sep\<close>, and whose source has the type \<^verbatim>\<open>data\<close>
  (then \<open>text\<close> is \<^verbatim>\<open>str\<close> of the value) or the type \<^verbatim>\<open>path\<close> with a text as its value
  (then \<open>text\<close> is that value): \<^verbatim>\<open>command_line_tool\<close> renders the prefix, the separator
  and the text one after the other and appends the result to the argument list as one
  element when it is not empty; when it is empty nothing is appended. The witness is the
  example of the claim: for the command \<^verbatim>\<open>['echo']\<close> and the input \<^verbatim>\<open>{'source':
  {'type': 'data', 'value': 'hello'}}\<close> the argument vector is \<^verbatim>\<open>['echo', 'hello']\<close>.
\<close>

theorem argument_token:
  assumes "obj_at (objs st) a = Some (PDict d)"
    and "map_of d ''target'' = None"
    and "binding_of (objs st) d pre sep"
    and "source_of (objs st) d stype sval"
    and "sval \<noteq> PNone"
    and "stype = PStr ''data'' \<and> text = py_str w (objs st) sval
         \<or> stype = PStr ''path'' \<and> sval = PStr text"
    and "obj_at (objs st) al = Some (PList xs)"
  shows "build_input w (PRef al) (PRef a) io st =
           (Inr io,
            if text_of pre @ text_of sep @ text = [] then st
            else st\<lparr>objs := (objs st)[al := PList (xs @ [PStr (text_of pre @ text_of sep @ text)])]\<rparr>)"
proof -
  from assms(6) have "stype \<noteq> PNone" by auto
  from read_source_ok [OF assms(1,3,4) this assms(5)]
  have r: "read_source (objs st) (PRef a) = Inr (text_of pre @ text_of sep, stype, sval)" .
  from assms(1,2) have c: "contains (objs st) (PStr ''target'') (PRef a) = Inr False" by simp
  from assms(6) have s: "add_source w (objs st) (text_of pre @ text_of sep) stype sval
      = Inr (text_of pre @ text_of sep @ text)"
    by (auto simp: add_source_def add_text_def)
  show ?thesis
    unfolding build_input_def r c
    using assms(7) by (simp add: s seq_def seqS_def append_arg_def)
qed

theorem argument_token_witness:
  "build_input example_world (PRef 1) (PRef 2)
       \<lparr>stdin = Inherit, stdout = Inherit, stderr = Pipe, stdininp = None\<rparr> (fresh echo_hello)
     = (Inr \<lparr>stdin = Inherit, stdout = Inherit, stderr = Pipe, stdininp = None\<rparr>,
        fresh (echo_hello[1 := PList [PStr ''echo'', PStr ''hello'']]))
   \<and> argv (objs (snd (build example_world (PRef 1) (Some [Single (PRef 2)]) None
                          (fresh echo_hello)))) (PRef 1)
       = Inr [''echo'', ''hello'']"
  using argument_token [of "fresh echo_hello" 2 "[(''source'', PRef 3)]" None None
      "PStr ''data''" "PStr ''hello''" "''hello''" example_world 1 "[PStr ''echo'']"
      "\<lparr>stdin = Inherit, stdout = Inherit, stderr = Pipe, stdininp = None\<rparr>"]
  by (simp add: model_defs echo_hello_def binding_of_def source_of_def text_of_def)


text \<open>
  C10. An input with a target of type \<^verbatim>\<open>stdin\<close> and a binding whose prefix and separator
  together are not empty: the value of the source goes to standard input (as the bytes
  to write when the source has the type \<^verbatim>\<open>data\<close>, as the opened file when it has the
  type \<^verbatim>\<open>path\<close>), and the text of the binding alone is appended to the argument list as
  one element.
\<close>

theorem binding_token_with_stdin:
  assumes "obj_at (objs st) a = Some (PDict d)"
    and "target_of (objs st) d t td"
    and "map_of td ''type'' = Some (PStr ''stdin'')"
    and "binding_of (objs st) d pre sep"
    and "text_of pre @ text_of sep \<noteq> []"
    and "source_of (objs st) d stype sval"
    and "sval \<noteq> PNone"
    and "stype = PStr ''data''
         \<or> stype = PStr ''path'' \<and> (\<exists>p. sval = PStr p) \<and> fopen w sval False = None"
    and "obj_at (objs st) al = Some (PList xs)"
  shows "build_input w (PRef al) (PRef a) io st =
           (if stype = PStr ''data''
            then (Inr (io\<lparr>stdin := Pipe, stdininp := Some (py_str w (objs st) sval)\<rparr>),
                  st\<lparr>objs := (objs st)[al := PList (xs @ [PStr (text_of pre @ text_of sep)])]\<rparr>)
            else (Inr (io\<lparr>stdin := File sval\<rparr>),
                  st\<lparr>effects := effects st @ [Opened sval False],
                     objs := (objs st)[al := PList (xs @ [PStr (text_of pre @ text_of sep)])]\<rparr>))"
proof -
  from assms(8) have "stype \<noteq> PNone" by auto
  from read_source_ok [OF assms(1,4,6) this assms(7)]
  have r: "read_source (objs st) (PRef a) = Inr (text_of pre @ text_of sep, stype, sval)" .
  from assms(1,2) have c: "contains (objs st) (PStr ''target'') (PRef a) = Inr True"
    by (simp add: target_of_def)
  from assms(1,2,3) have t: "seq (subscript (objs st) (PRef a) (PStr ''target'')) (\<lambda>tgt.
           seq (assert (tgt \<noteq> PNone)) (\<lambda>u.
           seq (subscript (objs st) tgt (PStr ''type'')) (\<lambda>ttype.
             assert (ttype = PStr ''stdin'')))) = Inr ()"
    by (simp add: target_of_def seq_def assert_def)
  show ?thesis
    unfolding build_input_def r c redirect_stdin_def t
    using assms(5,8,9)
    by (auto simp: seq_def seqS_def append_arg_def open_file_def)
qed

theorem binding_token_with_stdin_witness:
  "build_input example_world (PRef 0) (PRef 1)
       \<lparr>stdin = Inherit, stdout = Inherit, stderr = Pipe, stdininp = None\<rparr> (fresh stdin_example)
     = (Inr \<lparr>stdin = Pipe, stdout = Inherit, stderr = Pipe, stdininp = Some ''42''\<rparr>,
        fresh (stdin_example[0 := PList [PStr ''cat'', PStr ''-'']]))"
  using binding_token_with_stdin [of "fresh stdin_example" 1
      "[(''binding'', PRef 2), (''source'', PRef 3), (''target'', PRef 4)]" 4
      "[(''type'', PStr ''stdin'')]" "Some ''-''" None
      "PStr ''data''" "PInt 42" example_world 0 "[PStr ''cat'']"
      "\<lparr>stdin = Inherit, stdout = Inherit, stderr = Pipe, stdininp = None\<rparr>"]
  by (simp add: model_defs stdin_example_def binding_of_def source_of_def target_of_def
        text_of_def text_defs dec_nat.simps)

subsection \<open>C5: resolving the fields of a structured entry\<close>

lemma resolve_field_some:
  assumes "obj_at h f = Some (PDict fd)" and "spec_resolve h fd item = Some v"
  shows "resolve_field h (PRef f) item = Inr v"
  using assms
  by (auto simp: resolve_field_def spec_resolve_def seq_def list_index_def
           split: pyval.splits option.splits pyobj.splits list.splits)

lemma resolve_field_none:
  assumes "obj_at h f = Some (PDict fd)" and "spec_resolve h fd item = None"
  shows "\<exists>e. resolve_field h (PRef f) item = Inl e"
  using assms
  by (auto simp: resolve_field_def spec_resolve_def seq_def list_index_def
           split: pyval.splits option.splits pyobj.splits list.splits)

lemma dict_set_new: "k \<notin> fst ` set d \<Longrightarrow> dict_set d k v = d @ [(k, v)]"
  by (induction d) auto

lemma spec_fields_keys: "fst ` set (spec_fields h fd d keys) \<subseteq> set keys"
  by (induction keys) (auto simp: spec_fields_def split: option.splits)

lemma resolve_fields_ok:
  assumes "obj_at h a = Some (PDict d)" and "obj_at h f = Some (PDict fd)"
    and "distinct keys" and "set keys \<inter> fst ` set acc = {}"
    and "\<forall>k\<in>set keys. \<forall>item. map_of d k = Some item \<longrightarrow> spec_resolve h fd item \<noteq> None"
  shows "resolve_fields h (PRef f) (PRef a) keys acc = Inr (acc @ spec_fields h fd d keys)"
  using assms(3,4,5)
proof (induction keys arbitrary: acc)
  case Nil
  show ?case by (simp add: spec_fields_def)
next
  case (Cons k ks)
  have t: "spec_fields h fd d (k # ks)
      = (case Option.bind (map_of d k) (spec_resolve h fd) of None \<Rightarrow> [] | Some v \<Rightarrow> [(k, v)])
        @ spec_fields h fd d ks"
    by (simp add: spec_fields_def)
  show ?case
  proof (cases "map_of d k")
    case None
    have "resolve_fields h (PRef f) (PRef a) ks acc = Inr (acc @ spec_fields h fd d ks)"
      using Cons.prems by (intro Cons.IH) auto
    with None show ?thesis using assms(1) by (simp add: seq_def t)
  next
    case (Some item)
    with Cons.prems obtain v where v: "spec_resolve h fd item = Some v" by auto
    have n: "k \<notin> fst ` set acc" using Cons.prems by auto
    have "resolve_fields h (PRef f) (PRef a) ks (acc @ [(k, v)])
        = Inr ((acc @ [(k, v)]) @ spec_fields h fd d ks)"
      using Cons.prems by (intro Cons.IH) auto
    with Some v show ?thesis
      using assms(1) resolve_field_some [OF assms(2) v]
      by (simp add: seq_def t dict_set_new [OF n])
  qed
qed

lemma resolve_fields_error:
  assumes "obj_at h a = Some (PDict d)" and "obj_at h f = Some (PDict fd)"
    and "\<exists>k\<in>set keys. \<exists>item. map_of d k = Some item \<and> spec_resolve h fd item = None"
  shows "\<exists>e. resolve_fields h (PRef f) (PRef a) keys acc = Inl e"
  using assms(3)
proof (induction keys arbitrary: acc)
  case Nil
  then show ?case by simp
next
  case (Cons k ks)
  show ?case
  proof (cases "map_of d k")
    case None
    with Cons.prems have "\<exists>k\<in>set ks. \<exists>item. map_of d k = Some item \<and> spec_resolve h fd item = None"
      by auto
    from Cons.IH [OF this] None show ?thesis using assms(1) by (simp add: seq_def)
  next
    case (Some item)
    show ?thesis
    proof (cases "spec_resolve h fd item")
      case None
      from resolve_field_none [OF assms(2) None] Some show ?thesis
        using assms(1) by (auto simp: seq_def)
    next
      case (Some v)
      with \<open>map_of d k = Some item\<close> Cons.prems
      have "\<exists>k\<in>set ks. \<exists>item. map_of d k = Some item \<and> spec_resolve h fd item = None"
        by auto
      from Cons.IH [OF this] Some \<open>map_of d k = Some item\<close> show ?thesis
        using assms(1) resolve_field_some [OF assms(2) Some] by (simp add: seq_def)
    qed
  qed
qed

text \<open>
  C5. The entry of a label is a dictionary \<open>d\<close> and the workflow spec is a dictionary
  \<open>fd\<close>. When every field among \<^verbatim>\<open>binding\<close>, \<^verbatim>\<open>source\<close>, \<^verbatim>\<open>target\<close> that the entry has
  resolves as the claim says (\<open>spec_resolve\<close>: a string to the workflow spec's value at
  that key, to its first element when that value is a list; a dictionary to itself), the
  resolver returns a new dictionary with exactly these fields, each resolved so. When a
  field does not resolve (its value has another type, the workflow spec lacks the key, or
  the list is empty), the resolver raises.
\<close>

theorem resolve_structured_entry:
  assumes "obj_at h c = Some (PDict cd)" and "map_of cd label = Some (PRef a)"
    and "obj_at h a = Some (PDict d)" and "obj_at h f = Some (PDict fd)"
  shows "((\<forall>k\<in>set [''binding'', ''source'', ''target''].
            \<forall>item. map_of d k = Some item \<longrightarrow> spec_resolve h fd item \<noteq> None) \<longrightarrow>
          resolve_label h (PRef c) (PRef f) label
            = Inr (Single (PRef (length h)),
                   h @ [PDict (spec_fields h fd d [''binding'', ''source'', ''target''])]))
       \<and> ((\<exists>k\<in>set [''binding'', ''source'', ''target''].
            \<exists>item. map_of d k = Some item \<and> spec_resolve h fd item = None) \<longrightarrow>
          (\<exists>e. resolve_label h (PRef c) (PRef f) label = Inl e))"
proof (intro conjI impI)
  assume "\<forall>k\<in>set [''binding'', ''source'', ''target''].
            \<forall>item. map_of d k = Some item \<longrightarrow> spec_resolve h fd item \<noteq> None"
  then have "resolve_fields h (PRef f) (PRef a) [''binding'', ''source'', ''target''] []
      = Inr ([] @ spec_fields h fd d [''binding'', ''source'', ''target''])"
    by (intro resolve_fields_ok [OF assms(3,4)]) auto
  then show "resolve_label h (PRef c) (PRef f) label
            = Inr (Single (PRef (length h)),
                   h @ [PDict (spec_fields h fd d [''binding'', ''source'', ''target''])])"
    using assms(1,2) by (simp add: resolve_label_def seq_def alloc_def del: resolve_fields.simps)
next
  assume "\<exists>k\<in>set [''binding'', ''source'', ''target''].
            \<exists>item. map_of d k = Some item \<and> spec_resolve h fd item = None"
  from resolve_fields_error [OF assms(3,4) this]
  obtain e where "resolve_fields h (PRef f) (PRef a) [''binding'', ''source'', ''target''] []
      = Inl e" by blast
  then show "\<exists>e. resolve_label h (PRef c) (PRef f) label = Inl e"
    using assms(1,2) by (simp add: resolve_label_def seq_def del: resolve_fields.simps)
qed

theorem resolve_structured_entry_witness:
  "resolve_label references (PRef 0) (PRef 5) ''a''
     = Inr (Single (PRef 10),
            references @ [PDict [(''binding'', PRef 3), (''source'', PRef 7), (''target'', PRef 9)]])
   \<and> (\<exists>e. resolve_label references (PRef 0) (PRef 5) ''b'' = Inl e)"
  using resolve_structured_entry [of references 0
      "[(''command'', PRef 1), (''a'', PRef 2), (''b'', PRef 4)]" "''a''" 2
      "[(''binding'', PRef 3), (''source'', PStr ''key1''), (''target'', PStr ''key2'')]" 5
      "[(''key1'', PRef 6), (''key2'', PRef 9)]"]
    resolve_structured_entry [of references 0
      "[(''command'', PRef 1), (''a'', PRef 2), (''b'', PRef 4)]" "''b''" 4
      "[(''source'', PInt 7)]" 5
      "[(''key1'', PRef 6), (''key2'', PRef 9)]"]
  by (simp add: references_def obj_at_def spec_resolve_def spec_fields_def)

subsection \<open>C6: the prefix of an environment profile\<close>

lemma process_prefix_some:
  "spec_tokens w h p = Some g \<Longrightarrow> process_prefix w h p = Inr g"
  by (auto simp: spec_tokens_def process_prefix_def seq_def
           split: pyval.splits option.splits pyobj.splits sum.splits eval_result.splits)

lemma process_prefix_none:
  "spec_tokens w h p = None \<Longrightarrow> \<exists>e. process_prefix w h p = Inl e"
  by (auto simp: spec_tokens_def process_prefix_def seq_def
           split: pyval.splits option.splits pyobj.splits sum.splits eval_result.splits)

lemma process_prefix_list_some:
  "those (map (spec_tokens w h) ps) = Some groups \<Longrightarrow>
   process_prefix_list w h ps acc = Inr (acc @ concat groups)"
proof (induction ps arbitrary: acc groups)
  case Nil
  then show ?case by simp
next
  case (Cons p ps)
  from Cons.prems obtain g gs where g: "spec_tokens w h p = Some g"
    and gs: "those (map (spec_tokens w h) ps) = Some gs" and e: "groups = g # gs"
    by (auto split: option.splits)
  from Cons.IH [OF gs, of "acc @ g"] process_prefix_some [OF g] e
  show ?case by (simp add: seq_def)
qed

lemma process_prefix_list_none:
  "those (map (spec_tokens w h) ps) = None \<Longrightarrow> \<exists>e. process_prefix_list w h ps acc = Inl e"
proof (induction ps arbitrary: acc)
  case Nil
  then show ?case by simp
next
  case (Cons p ps)
  show ?case
  proof (cases "spec_tokens w h p")
    case None
    from process_prefix_none [OF None] show ?thesis by (auto simp: seq_def)
  next
    case (Some g)
    with Cons.prems have "those (map (spec_tokens w h) ps) = None"
      by (auto split: option.splits)
    from Cons.IH [OF this, of "acc @ g"] process_prefix_some [OF Some]
    show ?thesis by (simp add: seq_def)
  qed
qed

lemma expand_env_listed:
  assumes "name \<noteq> []"
    and "obj_at h f = Some (PDict fd)" and "map_of fd ''_fw_env'' = Some (PRef t)"
    and "obj_at h t = Some (PDict td)" and "map_of td name = Some (PRef p)"
    and "obj_at h p = Some (PDict pd)" and "run_init w h (PRef p) = Inr ()"
    and "obj_at h c = Some (PList (PStr head # rest))"
    and "map_of pd ''cmd'' = Some (PRef m)" and "obj_at h m = Some (PDict md)"
    and "map_of md head = Some (PRef e)" and "run_init w h (PRef e) = Inr ()"
  shows "expand_env w h (PRef f) (Some name) (PRef c) = expand_prefix w h (PRef e) (PRef c)"
  using assms by (simp add: expand_env_def seq_def list_index_def)

text \<open>
  C6. The workflow spec has a profile table with the profile \<open>name\<close>; the profile's
  \<^verbatim>\<open>cmd\<close> table lists the head of the command with an entry that has a prefix list
  \<open>ps\<close>; the initialization code of the profile and of the entry runs without raising.
  When every entry of the prefix list yields tokens as the claim says (\<open>spec_tokens\<close>), the
  command becomes a new list: the groups of tokens, concatenated in the declared order,
  followed by the elements of the old command. When an entry yields none (another shape,
  or a result that is not a text), the expansion raises. The witness is the example of
  the claim: the vector begins \<^verbatim>\<open>['mpirun', '-n', '4', 'foo', ...]\<close>.
\<close>

theorem prefix_expansion:
  assumes "name \<noteq> []"
    and "obj_at h f = Some (PDict fd)" and "map_of fd ''_fw_env'' = Some (PRef t)"
    and "obj_at h t = Some (PDict td)" and "map_of td name = Some (PRef p)"
    and "obj_at h p = Some (PDict pd)" and "run_init w h (PRef p) = Inr ()"
    and "obj_at h c = Some (PList (PStr head # rest))"
    and "map_of pd ''cmd'' = Some (PRef m)" and "obj_at h m = Some (PDict md)"
    and "map_of md head = Some (PRef e)" and "run_init w h (PRef e) = Inr ()"
    and "obj_at h e = Some (PDict ed)" and "map_of ed ''prefix'' = Some (PRef l)"
    and "obj_at h l = Some (PList ps)"
  shows "(\<forall>groups. those (map (spec_tokens w h) ps) = Some groups \<longrightarrow>
            expand_env w h (PRef f) (Some name) (PRef c)
              = Inr (PRef (length h),
                     h @ [PList (map PStr (concat groups) @ PStr head # rest)]))
       \<and> (those (map (spec_tokens w h) ps) = None \<longrightarrow>
            (\<exists>er. expand_env w h (PRef f) (Some name) (PRef c) = Inl er))"
proof -
  have x: "expand_env w h (PRef f) (Some name) (PRef c) = expand_prefix w h (PRef e) (PRef c)"
    by (rule expand_env_listed [OF assms(1-12)])
  show ?thesis
  proof (intro conjI allI impI)
    fix groups assume "those (map (spec_tokens w h) ps) = Some groups"
    from process_prefix_list_some [OF this, of "[]"]
    show "expand_env w h (PRef f) (Some name) (PRef c)
              = Inr (PRef (length h),
                     h @ [PList (map PStr (concat groups) @ PStr head # rest)])"
      using assms(8,13,14,15) by (simp add: x expand_prefix_def seq_def elems_def alloc_def)
  next
    assume "those (map (spec_tokens w h) ps) = None"
    from process_prefix_list_none [OF this, of "[]"]
    show "\<exists>er. expand_env w h (PRef f) (Some name) (PRef c) = Inl er"
      using assms(8,13,14,15) by (auto simp: x expand_prefix_def seq_def)
  qed
qed

theorem prefix_expansion_witness:
  "those (map (spec_tokens example_world profile_example) [PStr ''mpirun'', PRef 7])
     = Some [[''mpirun''], [''-n'', ''4'']]
   \<and> expand_env example_world profile_example (PRef 1) (Some ''m'') (PRef 0)
     = Inr (PRef 8,
            profile_example
            @ [PList [PStr ''mpirun'', PStr ''-n'', PStr ''4'', PStr ''foo'', PStr ''in.txt'']])"
  using prefix_expansion [of "''m''" profile_example 1 "[(''_fw_env'', PRef 2)]" 2
      "[(''m'', PRef 3)]" 3 "[(''cmd'', PRef 4)]" example_world 0 "''foo''" "[PStr ''in.txt'']"
      4 "[(''foo'', PRef 5)]" 5 "[(''prefix'', PRef 6)]" 6 "[PStr ''mpirun'', PRef 7]"]
  by (simp add: profile_example_def obj_at_def spec_tokens_def run_init_def seq_def
        example_world_def text_defs)

subsection \<open>C4: what \<^verbatim>\<open>run_task\<close> writes to\<close>

lemma dict_set_twice: "dict_set (dict_set d k v) k v' = dict_set d k v'"
  by (induction d) auto

lemma map_of_dict_set: "map_of (dict_set d k v) k' = (if k' = k then Some v else map_of d k')"
  by (induction d) auto

lemma evolves_refl: "evolves p q ob ob"
  by (simp add: evolves_def)

lemma evolves_trans:
  "evolves p q ob ob' \<Longrightarrow> evolves p q ob' ob'' \<Longrightarrow> evolves p q ob ob''"
  unfolding evolves_def
  by (elim disjE conjE exE) (auto simp: dict_set_twice)

lemma evolves_mono:
  "evolves p q ob ob' \<Longrightarrow> (p \<Longrightarrow> p') \<Longrightarrow> (q \<Longrightarrow> q') \<Longrightarrow> evolves p' q' ob ob'"
  unfolding evolves_def by blast

lemma frame_refl: "frame L T h h"
  by (simp add: frame_def evolves_refl)

lemma frame_trans: "frame L T h h' \<Longrightarrow> frame L T h' h'' \<Longrightarrow> frame L T h h''"
  unfolding frame_def by (auto intro: evolves_trans)

lemma frame_mono: "frame L T h h' \<Longrightarrow> L \<subseteq> L' \<Longrightarrow> T \<subseteq> T' \<Longrightarrow> frame L' T' h h'"
  unfolding frame_def by (auto intro: evolves_mono)

lemma frame_append:
  assumes "obj_at h l = Some (PList xs)"
  shows "frame {l} {} h (h[l := PList (xs @ ys)])"
  using assms
  by (auto simp: frame_def obj_at_def evolves_def nth_list_update split: if_splits)

lemma frame_setitem:
  assumes "obj_at h t = Some (PDict d)"
  shows "frame {} {t} h (h[t := PDict (dict_set d ''value'' v)])"
  using assms
  by (auto simp: frame_def obj_at_def evolves_def nth_list_update split: if_splits)

lemma frame_obj_at:
  assumes "frame L T h h'"
  shows "obj_at h' a = None \<longleftrightarrow> obj_at h a = None"
  using assms by (auto simp: frame_def obj_at_def)

lemma frame_subscript:
  assumes "frame L T h h'" and "k \<noteq> ''value''"
  shows "subscript h' v (PStr k) = subscript h v (PStr k)"
proof (cases v)
  case (PRef a)
  show ?thesis
  proof (cases "a < length h")
    case True
    with assms(1) have e: "evolves (a \<in> L) (a \<in> T) (h ! a) (h' ! a)" and l: "length h' = length h"
      by (auto simp: frame_def)
    from e show ?thesis
      unfolding evolves_def using True l assms(2) PRef
      by (elim disjE conjE exE) (auto simp: obj_at_def map_of_dict_set)
  next
    case False
    with assms(1) PRef show ?thesis by (auto simp: frame_def obj_at_def)
  qed
qed simp_all

lemma frame_target_addrs:
  assumes "frame L T h h'"
  shows "target_addrs h' outs = target_addrs h outs"
  by (induction outs) (auto simp: seq_def frame_subscript [OF assms] split: sum.splits)


lemma seqS_frame:
  assumes "frame L T h (objs (snd m))"
    and "\<And>x s1. frame L T h (objs s1) \<Longrightarrow> frame L T h (objs (snd (f x s1)))"
  shows "frame L T h (objs (snd (seqS m f)))"
  using assms by (cases m) (auto simp: seqS_def split: sum.splits)

lemma append_arg_frame:
  assumes "frame L T h (objs st)" and "list_addr al \<subseteq> L"
  shows "frame L T h (objs (snd (append_arg al s st)))"
proof (cases "\<exists>l xs. s \<noteq> [] \<and> al = PRef l \<and> obj_at (objs st) l = Some (PList xs)")
  case True
  then obtain l xs where s: "s \<noteq> []" and al: "al = PRef l"
    and l: "obj_at (objs st) l = Some (PList xs)" by blast
  from assms(2) al have "{l} \<subseteq> L" by simp
  with frame_append [OF l, of "[PStr s]"]
  have "frame L T (objs st) ((objs st)[l := PList (xs @ [PStr s])])"
    by (auto intro: frame_mono)
  with assms(1) have "frame L T h ((objs st)[l := PList (xs @ [PStr s])])"
    by (rule frame_trans)
  with s al l show ?thesis by (simp add: append_arg_def)
next
  case False
  with assms(1) show ?thesis
    by (auto simp: append_arg_def split: pyval.splits option.splits pyobj.splits)
qed

lemma setitem_frame:
  assumes "frame L T h (objs st)" and "\<forall>t. c = PRef t \<longrightarrow> t \<in> T"
  shows "frame L T h (objs (snd (setitem c ''value'' v st)))"
proof (cases "\<exists>t d. c = PRef t \<and> obj_at (objs st) t = Some (PDict d)")
  case True
  then obtain t d where c: "c = PRef t" and t: "obj_at (objs st) t = Some (PDict d)" by blast
  from assms(2) c have "{t} \<subseteq> T" by simp
  with frame_setitem [OF t, of v]
  have "frame L T (objs st) ((objs st)[t := PDict (dict_set d ''value'' v)])"
    by (auto intro: frame_mono)
  with assms(1) have "frame L T h ((objs st)[t := PDict (dict_set d ''value'' v)])"
    by (rule frame_trans)
  with c t show ?thesis by (simp add: setitem_def)
next
  case False
  with assms(1) show ?thesis
    by (auto simp: setitem_def split: pyval.splits option.splits pyobj.splits)
qed

lemma objs_open_file: "objs (snd (open_file w n m st)) = objs st"
  by (auto simp: open_file_def split: pyval.splits option.splits)

lemma objs_target_path: "objs (snd (target_path w tgt st)) = objs st"
  by (auto simp: target_path_def split: sum.splits)

lemma objs_seqS:
  assumes "objs (snd m) = h" and "\<And>x s1. objs s1 = h \<Longrightarrow> objs (snd (f x s1)) = h"
  shows "objs (snd (seqS m f)) = h"
  using assms by (cases m) (auto simp: seqS_def split: sum.splits)

lemma objs_connect_source: "objs (snd (connect_source w arg path argstr io st)) = objs st"
  unfolding connect_source_def
  by (auto split: sum.splits option.splits intro!: objs_seqS simp: objs_open_file)

lemma objs_redirect_stdin: "objs (snd (redirect_stdin w arg stype sval io st)) = objs st"
  unfolding redirect_stdin_def
  by (auto split: sum.splits intro!: objs_seqS simp: objs_open_file)

lemma objs_copy_source: "objs (snd (copy_source w output st)) = objs st"
  by (auto simp: copy_source_def split: sum.splits option.splits prod.splits)

lemma build_input_frame:
  assumes "frame L T h (objs st)" and "list_addr al \<subseteq> L"
  shows "frame L T h (objs (snd (build_input w al arg io st)))"
  unfolding build_input_def
  using assms
  by (auto split: sum.splits intro!: seqS_frame append_arg_frame simp: objs_redirect_stdin)

lemma build_args_frame:
  assumes "list_addr al \<subseteq> L"
  shows "frame L T h (objs st) \<Longrightarrow> frame L T h (objs (snd (build_args w al args io st)))"
proof (induction args arbitrary: io st)
  case Nil
  then show ?case by simp
next
  case (Cons arg args)
  show ?case
    unfolding build_args.simps
  proof (rule seqS_frame)
    show "frame L T h (objs (snd (build_input w al arg io st)))"
      using Cons.prems assms by (rule build_input_frame)
  next
    fix x and s1 :: state assume "frame L T h (objs s1)"
    then show "frame L T h (objs (snd (build_args w al args x s1)))" by (rule Cons.IH)
  qed
qed

lemma read_target_target:
  "read_target h arg = Inr (argstr, tgt, ttype) \<Longrightarrow> subscript h arg (PStr ''target'') = Inr tgt"
  by (auto simp: read_target_def seq_def assert_def split: sum.splits if_splits)

lemma target_in_frame:
  assumes "frame L T h h1" and "set (target_addrs h [out]) \<subseteq> T"
    and "first_arg out = Inr arg" and "subscript h1 arg (PStr ''target'') = Inr tgt"
  shows "\<forall>t. tgt = PRef t \<longrightarrow> t \<in> T"
proof -
  from assms(4) have "subscript h arg (PStr ''target'') = Inr tgt"
    by (simp add: frame_subscript [OF assms(1)])
  with assms(2,3) show ?thesis by (auto simp: seq_def)
qed

lemma build_output_frame:
  assumes "frame L T h (objs st)" and "list_addr al \<subseteq> L" and "set (target_addrs h [out]) \<subseteq> T"
  shows "frame L T h (objs (snd (build_output w al out io st)))"
proof (cases "seq (first_arg out) (\<lambda>arg.
           seq (read_target (objs st) arg) (\<lambda>(argstr, tgt, ttype).
             Inr (arg, argstr, tgt, ttype)))")
  case (Inl e)
  with assms(1) show ?thesis by (simp add: build_output_def)
next
  case (Inr r)
  obtain arg argstr tgt ttype where r: "r = (arg, argstr, tgt, ttype)" by (cases r) auto
  from Inr r have f: "first_arg out = Inr arg"
    and "read_target (objs st) arg = Inr (argstr, tgt, ttype)"
    by (auto simp: seq_def split: sum.splits)
  then have "subscript (objs st) arg (PStr ''target'') = Inr tgt" by (simp add: read_target_target)
  from target_in_frame [OF assms(1,3) f this] have t: "\<forall>t. tgt = PRef t \<longrightarrow> t \<in> T" .
  show ?thesis
    unfolding build_output_def Inr r
    using assms(1,2) t
    by (auto intro!: seqS_frame append_arg_frame setitem_frame
             simp: objs_target_path objs_connect_source)
qed

lemma build_outputs_frame:
  assumes "list_addr al \<subseteq> L" and "set (target_addrs h outs) \<subseteq> T"
  shows "frame L T h (objs st) \<Longrightarrow> frame L T h (objs (snd (build_outputs w al outs io st)))"
  using assms(2)
proof (induction outs arbitrary: io st)
  case Nil
  then show ?case by simp
next
  case (Cons out outs)
  from Cons.prems(2) have o: "set (target_addrs h [out]) \<subseteq> T"
    and os: "set (target_addrs h outs) \<subseteq> T" by auto
  show ?case
    unfolding build_outputs.simps
  proof (rule seqS_frame)
    show "frame L T h (objs (snd (build_output w al out io st)))"
      using Cons.prems(1) assms(1) o by (rule build_output_frame)
  next
    fix x and s1 :: state assume "frame L T h (objs s1)"
    then show "frame L T h (objs (snd (build_outputs w al outs x s1)))"
      using os by (rule Cons.IH)
  qed
qed


lemma store_data_frame:
  assumes "frame L T h (objs st)" and "set (target_addrs h [Single outp]) \<subseteq> T"
  shows "frame L T h (objs (snd (store_data res0 outp st)))"
proof (cases "seq (subscript (objs st) outp (PStr ''target'')) (\<lambda>tgt.
           seq (subscript (objs st) tgt (PStr ''type'')) (\<lambda>ttype.
             if ttype = PStr ''data'' then
               (case res0 of
                  None \<Rightarrow> Inl AttributeError
                | Some bytes \<Rightarrow>
                    seq (decode bytes) (\<lambda>text.
                    seq (subscript (objs st) outp (PStr ''target'')) (\<lambda>tgt.
                      Inr (Some (tgt, strip text)))))
             else Inr None))")
  case (Inl e)
  with assms(1) show ?thesis by (simp add: store_data_def)
next
  case (Inr r)
  show ?thesis
  proof (cases r)
    case None
    with Inr assms(1) show ?thesis by (simp add: store_data_def)
  next
    case (Some p)
    obtain tgt tx where p: "p = (tgt, tx)" by (cases p) auto
    from Inr Some p have "subscript (objs st) outp (PStr ''target'') = Inr tgt"
      by (auto simp: seq_def split: sum.splits if_splits option.splits)
    from target_in_frame [OF assms(1,2) _ this]
    have t: "\<forall>t. tgt = PRef t \<longrightarrow> t \<in> T" by (simp add: first_arg_def)
    show ?thesis
      unfolding store_data_def Inr Some p
      using assms(1) t by (simp add: setitem_frame)
  qed
qed

lemma harvest_output_frame:
  assumes "frame L T h (objs st)" and "set (target_addrs h [out]) \<subseteq> T"
  shows "frame L T h (objs (snd (harvest_output w res0 out st)))"
proof (cases out)
  case (Multi xs)
  with assms(1) show ?thesis by (simp add: harvest_output_def)
next
  case (Single outp)
  show ?thesis
    unfolding harvest_output_def Single
    using assms
    by (auto intro!: seqS_frame store_data_frame simp: objs_copy_source Single)
qed

lemma harvest_frame:
  assumes "set (target_addrs h outs) \<subseteq> T"
  shows "frame L T h (objs st) \<Longrightarrow> frame L T h (objs (snd (harvest w res0 outs st)))"
  using assms
proof (induction outs arbitrary: st)
  case Nil
  then show ?case by simp
next
  case (Cons out outs)
  from Cons.prems(2) have o: "set (target_addrs h [out]) \<subseteq> T"
    and os: "set (target_addrs h outs) \<subseteq> T" by auto
  show ?case
    unfolding harvest.simps
  proof (rule seqS_frame)
    show "frame L T h (objs (snd (harvest_output w res0 out st)))"
      using Cons.prems(1) o by (rule harvest_output_frame)
  next
    fix x and s1 :: state assume "frame L T h (objs s1)"
    then have "frame L T h (objs (snd (harvest w res0 outs s1)))" using os by (rule Cons.IH)
    then show "frame L T h (objs (snd (seqS (harvest w res0 outs s1)
        (\<lambda>rs st2. (Inr (x # rs), st2)))))"
      by (auto intro!: seqS_frame)
  qed
qed

lemma build_frame:
  "frame (list_addr command) (set (target_addrs (objs st) (case outs of None \<Rightarrow> [] | Some ys \<Rightarrow> ys)))
     (objs st) (objs (snd (build w command ins outs st)))"
  unfolding build_def build_inputs_def
  by (auto split: option.splits
           intro!: seqS_frame build_args_frame build_outputs_frame simp: frame_refl)

lemma command_line_tool_frame:
  "frame (list_addr command) (set (target_addrs (objs st) (case outs of None \<Rightarrow> [] | Some ys \<Rightarrow> ys)))
     (objs st) (objs (snd (command_line_tool w command ins outs st)))"
  unfolding command_line_tool_def
proof (rule seqS_frame [OF build_frame])
  fix io and s1 :: state
  assume "frame (list_addr command)
      (set (target_addrs (objs st) (case outs of None \<Rightarrow> [] | Some ys \<Rightarrow> ys))) (objs st) (objs s1)"
  then show "frame (list_addr command)
      (set (target_addrs (objs st) (case outs of None \<Rightarrow> [] | Some ys \<Rightarrow> ys))) (objs st)
      (objs (snd (case execute w (objs s1) command io of
         Inl e \<Rightarrow> (Inl e, s1)
       | Inr res \<Rightarrow>
           (case outs of None \<Rightarrow> (Inr [], s1) | Some ys \<Rightarrow> harvest w (fst res) ys s1))))"
    by (auto split: sum.splits option.splits intro!: harvest_frame)
qed


lemma wrap_items_ext:
  "wrap_items h items = Inr (xs, h1) \<Longrightarrow> \<exists>hs. h1 = h @ hs"
proof (induction items arbitrary: h xs h1)
  case Nil
  then show ?case by simp
next
  case (Cons item items)
  from Cons.prems obtain b x h2 ys where
    "(if b then (item, h) else alloc (PDict [(''source'', item)]) h) = (x, h2)"
    and w: "wrap_items h2 items = Inr (ys, h1)"
    by (auto simp: seq_def split: sum.splits prod.splits)
  then have "\<exists>hs. h2 = h @ hs" by (auto simp: alloc_def split: if_splits)
  with Cons.IH [OF w] show ?case by auto
qed

lemma resolve_label_ext:
  "resolve_label h cmd_spec fw_spec label = Inr (inp, h1) \<Longrightarrow> \<exists>hs. h1 = h @ hs"
  by (auto simp: resolve_label_def seq_def alloc_def
           split: sum.splits pyval.splits prod.splits dest: wrap_items_ext)

lemma resolve_labels_ext:
  "resolve_labels h cmd_spec fw_spec ls = Inr (ios, h1) \<Longrightarrow> \<exists>hs. h1 = h @ hs"
proof (induction ls arbitrary: h ios h1)
  case Nil
  then show ?case by simp
next
  case (Cons label ls)
  from Cons.prems obtain inp h2 ys where r: "resolve_label h cmd_spec fw_spec label = Inr (inp, h2)"
    and w: "resolve_labels h2 cmd_spec fw_spec ls = Inr (ys, h1)"
    by (auto simp: seq_def split: sum.splits prod.splits)
  from resolve_label_ext [OF r] Cons.IH [OF w] show ?case by auto
qed

lemma get_command_ext:
  "get_command h cmd_spec = Inr (command, h1) \<Longrightarrow> \<exists>hs. h1 = h @ hs"
  by (auto simp: get_command_def seq_def alloc_def assert_def split: sum.splits if_splits)

lemma expand_prefix_ext:
  "expand_prefix w h entry command = Inr (command1, h1) \<Longrightarrow> \<exists>hs. h1 = h @ hs"
  by (auto simp: expand_prefix_def seq_def alloc_def split: sum.splits if_splits)

lemma expand_env_ext:
  "expand_env w h fw_spec env_name command = Inr (command1, h1) \<Longrightarrow> \<exists>hs. h1 = h @ hs"
  by (auto simp: expand_env_def seq_def split: sum.splits if_splits option.splits
           dest: expand_prefix_ext)

lemma prepare_ext:
  assumes "prepare w self fw_spec h = Inr ((command, ins, outs), h1)"
  shows "\<exists>hs. h1 = h @ hs"
proof -
  from assms obtain ha hb hc command0 where
    a: "resolve_labels h (command_spec self) fw_spec (labels (inputs self)) = Inr (ins, ha)"
    and b: "resolve_labels ha (command_spec self) fw_spec (labels (outputs self)) = Inr (outs, hb)"
    and c: "get_command hb (command_spec self) = Inr (command0, hc)"
    and d: "expand_env w hc fw_spec (env self) command0 = Inr (command, h1)"
    by (auto simp: prepare_def seq_def split: sum.splits prod.splits)
  from resolve_labels_ext [OF a] resolve_labels_ext [OF b] get_command_ext [OF c]
    expand_env_ext [OF d]
  show ?thesis by auto
qed

lemma subscript_ext:
  assumes "a < length h"
  shows "subscript (h @ hs) (PRef a) k = subscript h (PRef a) k"
  using assms by (simp add: obj_at_def nth_append)

lemma expand_prefix_command:
  assumes "expand_prefix w h entry command = Inr (PRef l, h1)" and "l < length h"
  shows "command = PRef l"
  using assms by (auto simp: expand_prefix_def seq_def alloc_def split: sum.splits if_splits)

lemma expand_env_command:
  assumes "expand_env w h fw_spec env_name command = Inr (PRef l, h1)" and "l < length h"
  shows "command = PRef l"
  using assms
  by (auto simp: expand_env_def seq_def split: sum.splits if_splits option.splits
           dest: expand_prefix_command)

lemma get_command_command:
  assumes "get_command h cmd_spec = Inr (PRef l, h1)" and "l < length h"
  shows "subscript h cmd_spec (PStr ''command'') = Inr (PRef l)"
  using assms
  by (auto simp: get_command_def seq_def alloc_def assert_def split: sum.splits if_splits)

lemma prepare_command:
  assumes "prepare w self fw_spec h = Inr ((PRef l, ins, outs), h1)"
    and "l < length h" and "command_spec self = PRef c" and "c < length h"
  shows "subscript h (command_spec self) (PStr ''command'') = Inr (PRef l)"
proof -
  from assms(1) obtain ha hb hc command0 where
    a: "resolve_labels h (command_spec self) fw_spec (labels (inputs self)) = Inr (ins, ha)"
    and b: "resolve_labels ha (command_spec self) fw_spec (labels (outputs self)) = Inr (outs, hb)"
    and c: "get_command hb (command_spec self) = Inr (command0, hc)"
    and d: "expand_env w hc fw_spec (env self) command0 = Inr (PRef l, h1)"
    by (auto simp: prepare_def seq_def split: sum.splits prod.splits)
  from resolve_labels_ext [OF a] resolve_labels_ext [OF b]
  obtain hs where hb: "hb = h @ hs" by auto
  from get_command_ext [OF c] hb obtain hs' where hc: "hc = h @ hs'" by auto
  with assms(2) have "l < length hc" by simp
  from expand_env_command [OF d this] have "command0 = PRef l" .
  with c have "get_command hb (command_spec self) = Inr (PRef l, hc)" by simp
  from get_command_command [OF this] assms(2) hb
  have "subscript (h @ hs) (command_spec self) (PStr ''command'') = Inr (PRef l)" by simp
  with assms(3) subscript_ext [OF assms(4), of hs "PStr ''command''"] show ?thesis
    by (simp only:)
qed




text \<open>
  C4 (as amended). \<^verbatim>\<open>run_task\<close> writes in place. When the labels, the command or the
  environment do not resolve, nothing is changed. Otherwise, whether the call returns or
  raises, every object that the store held before the call is the same afterwards, with
  two exceptions: a dictionary that is the target of a declared output may have its entry
  \<^verbatim>\<open>value\<close> set (to the normalized path, or to the captured output), and the list
  \<^verbatim>\<open>command_spec['command']\<close>, when the command is run from this very list, may have
  arguments appended. The new objects of the call come after the old ones.
\<close>

theorem run_task_frame:
  assumes "command_spec self = PRef c" and "c < length (objs st)"
  shows "case prepare w self fw_spec (objs st) of
           Inl e \<Rightarrow> snd (run_task w self fw_spec st) = st
         | Inr ((command, ins, outs), h1) \<Rightarrow>
             length (objs st) \<le> length (objs (snd (run_task w self fw_spec st)))
             \<and> (\<forall>a. a < length (objs st) \<longrightarrow>
                  objs (snd (run_task w self fw_spec st)) ! a = objs st ! a
                  \<or> a \<in> set (target_addrs h1 outs)
                    \<and> (\<exists>d v. objs st ! a = PDict d
                          \<and> objs (snd (run_task w self fw_spec st)) ! a
                              = PDict (dict_set d ''value'' v))
                  \<or> subscript (objs st) (command_spec self) (PStr ''command'') = Inr (PRef a)
                    \<and> command = PRef a
                    \<and> (\<exists>xs ys. objs st ! a = PList xs
                          \<and> objs (snd (run_task w self fw_spec st)) ! a = PList (xs @ ys)))"
proof (cases "prepare w self fw_spec (objs st)")
  case (Inl e)
  then show ?thesis by (simp add: run_task_def)
next
  case (Inr r)
  obtain command ins outs h1 where r: "r = ((command, ins, outs), h1)" by (cases r) auto
  with Inr have p: "prepare w self fw_spec (objs st) = Inr ((command, ins, outs), h1)" by simp
  from prepare_ext [OF p] obtain hs where h1: "h1 = objs st @ hs" by auto
  let ?st1 = "snd (command_line_tool w command (Some ins) (Some outs) (st\<lparr>objs := h1\<rparr>))"
  have s: "snd (run_task w self fw_spec st) = ?st1"
    by (cases "command_line_tool w command (Some ins) (Some outs) (st\<lparr>objs := h1\<rparr>)")
       (auto simp: run_task_def p seqS_def split: sum.splits)
  from command_line_tool_frame [of command "st\<lparr>objs := h1\<rparr>" "Some outs" w "Some ins"]
  have f: "frame (list_addr command) (set (target_addrs h1 outs)) h1 (objs ?st1)" by simp
  then have l: "length (objs ?st1) = length h1" by (simp add: frame_def)
  have "\<forall>a. a < length (objs st) \<longrightarrow>
                  objs ?st1 ! a = objs st ! a
                  \<or> a \<in> set (target_addrs h1 outs)
                    \<and> (\<exists>d v. objs st ! a = PDict d \<and> objs ?st1 ! a = PDict (dict_set d ''value'' v))
                  \<or> subscript (objs st) (command_spec self) (PStr ''command'') = Inr (PRef a)
                    \<and> command = PRef a
                    \<and> (\<exists>xs ys. objs st ! a = PList xs \<and> objs ?st1 ! a = PList (xs @ ys))"
  proof (intro allI impI)
    fix a assume a: "a < length (objs st)"
    with h1 have a1: "a < length h1" and n: "h1 ! a = objs st ! a" by (simp_all add: nth_append)
    from f a1 have "evolves (a \<in> list_addr command) (a \<in> set (target_addrs h1 outs))
        (h1 ! a) (objs ?st1 ! a)" by (simp add: frame_def)
    then consider "objs ?st1 ! a = h1 ! a"
      | "a \<in> list_addr command" "\<exists>xs ys. h1 ! a = PList xs \<and> objs ?st1 ! a = PList (xs @ ys)"
      | "a \<in> set (target_addrs h1 outs)"
        "\<exists>d v. h1 ! a = PDict d \<and> objs ?st1 ! a = PDict (dict_set d ''value'' v)"
      unfolding evolves_def by blast
    then show "objs ?st1 ! a = objs st ! a
                  \<or> a \<in> set (target_addrs h1 outs)
                    \<and> (\<exists>d v. objs st ! a = PDict d \<and> objs ?st1 ! a = PDict (dict_set d ''value'' v))
                  \<or> subscript (objs st) (command_spec self) (PStr ''command'') = Inr (PRef a)
                    \<and> command = PRef a
                    \<and> (\<exists>xs ys. objs st ! a = PList xs \<and> objs ?st1 ! a = PList (xs @ ys))"
    proof cases
      case 1
      with n show ?thesis by simp
    next
      case 2
      from 2(1) have c: "command = PRef a" by (cases command) auto
      with p have "prepare w self fw_spec (objs st) = Inr ((PRef a, ins, outs), h1)" by simp
      from prepare_command [OF this a assms]
      show ?thesis using 2(2) c n by simp
    next
      case 3
      with n show ?thesis by simp
    qed
  qed
  with l h1 show ?thesis by (simp add: Inr r s)
qed

theorem run_task_frame_witness:
  "prepare example_world
       \<lparr>command_spec = PRef 0, inputs = Some [''a''], outputs = Some [''o''],
        chunk_number = None, env = None\<rparr> (PRef 6) echo_hello
     = Inr ((PRef 1, [Single (PRef 7)], [Single (PRef 8)]),
            echo_hello @ [PDict [(''source'', PRef 3)], PDict [(''target'', PRef 5)]])
   \<and> target_addrs (echo_hello @ [PDict [(''source'', PRef 3)], PDict [(''target'', PRef 5)]])
         [Single (PRef 8)] = [5]
   \<and> objs (snd (run_task example_world
        \<lparr>command_spec = PRef 0, inputs = Some [''a''], outputs = Some [''o''],
         chunk_number = None, env = None\<rparr> (PRef 6) (fresh echo_hello)))
     = (echo_hello @ [PDict [(''source'', PRef 3)], PDict [(''target'', PRef 5)]])
         [1 := PList [PStr ''echo'', PStr ''hello''],
          5 := PDict [(''type'', PStr ''data''), (''value'', PStr ''hello'')]]"
  using run_task_frame [of
      "\<lparr>command_spec = PRef 0, inputs = Some [''a''], outputs = Some [''o''],
        chunk_number = None, env = None\<rparr>" 0 "fresh echo_hello" example_world "PRef 6"]
  by (simp add: model_defs echo_hello_def text_defs)

text \<open>
  C4 as stated does not hold: for \<^verbatim>\<open>command_spec = {'command': ['echo'], 'a': {'source':
  {'type': 'data', 'value': 'hello'}}, 'o': {'target': {'type': 'data'}}}\<close> with the
  input \<^verbatim>\<open>a\<close> and the output \<^verbatim>\<open>o\<close>, \<^verbatim>\<open>run_task\<close> returns normally, and afterwards the
  target of \<^verbatim>\<open>o\<close> inside the command specification has the entry \<^verbatim>\<open>value\<close> and the
  command of the command specification is \<^verbatim>\<open>['echo', 'hello']\<close>.
\<close>

theorem run_task_writes_in_place:
  "obj_at echo_hello 5 = Some (PDict [(''type'', PStr ''data'')])
   \<and> obj_at echo_hello 1 = Some (PList [PStr ''echo''])
   \<and> fst (run_task example_world
        \<lparr>command_spec = PRef 0, inputs = Some [''a''], outputs = Some [''o''],
         chunk_number = None, env = None\<rparr> (PRef 6) (fresh echo_hello))
       = Inr (FWAction (Some [(''o'', PRef 5)]) None)
   \<and> obj_at (objs (snd (run_task example_world
        \<lparr>command_spec = PRef 0, inputs = Some [''a''], outputs = Some [''o''],
         chunk_number = None, env = None\<rparr> (PRef 6) (fresh echo_hello)))) 5
       = Some (PDict [(''type'', PStr ''data''), (''value'', PStr ''hello'')])
   \<and> obj_at (objs (snd (run_task example_world
        \<lparr>command_spec = PRef 0, inputs = Some [''a''], outputs = Some [''o''],
         chunk_number = None, env = None\<rparr> (PRef 6) (fresh echo_hello)))) 1
       = Some (PList [PStr ''echo'', PStr ''hello''])"
  by (simp add: model_defs echo_hello_def text_defs)

end
